theory Spec2Isabelle
  imports Complex_Main
begin


section \<open>Python values used by the G2P rule engine\<close>

text \<open>
  A Python \<open>str\<close> is a sequence of Unicode code points, so a string is a list of
  natural numbers.  The IPA symbols of the source lie beyond the 8-bit range of
  \<^typ>\<open>char\<close>; ASCII literals are written with \<open>U\<close>.
\<close>

type_synonym uchar = nat
type_synonym ustr = "uchar list"

definition U :: "string \<Rightarrow> ustr" where
  "U s = map of_char s"

definition apostrophe :: uchar where
  "apostrophe = 39"

definition hyphen :: uchar where
  "hyphen = 45"

text \<open>The exceptions that the modelled code can raise.\<close>

datatype py_error = IndexError | KeyError | AssertionError | ValueError | NameError | IOError

text \<open>
  \<open>parse_one_word\<close> returns either a \<open>str\<close> or a list of \<open>str\<close>; \<open>list.extend\<close>
  accepts both and iterates a \<open>str\<close> character by character.
\<close>

datatype pron = Str ustr | Lst "ustr list"

definition list_of_str :: "ustr \<Rightarrow> ustr list" where
  "list_of_str word = map (\<lambda>c. [c]) word"

fun extend_items :: "pron \<Rightarrow> ustr list" where
  "extend_items (Str s) = list_of_str s"
| "extend_items (Lst l) = l"

text \<open>\<open>word.endswith(s)\<close>, \<open>word[:-n]\<close>, \<open>word.split(sep)\<close> for a one-character separator.\<close>

definition endswith :: "ustr \<Rightarrow> ustr \<Rightarrow> bool" where
  "endswith word s = (length s \<le> length word \<and> drop (length word - length s) word = s)"

definition drop_last :: "nat \<Rightarrow> ustr \<Rightarrow> ustr" where
  "drop_last n word = take (length word - n) word"

fun split :: "uchar \<Rightarrow> ustr \<Rightarrow> ustr list" where
  "split sep [] = [[]]"
| "split sep (c # cs) =
     (if c = sep then [] # split sep cs
      else (case split sep cs of [] \<Rightarrow> [[c]] | p # ps \<Rightarrow> (c # p) # ps))"

text \<open>\<open>re.search\<close> with a pattern that is one character class finds a match when some
  character of the string is in the class.\<close>

definition re_search :: "(uchar \<Rightarrow> bool) \<Rightarrow> ustr \<Rightarrow> bool" where
  "re_search cls word = list_ex cls word"

text \<open>\<open>prons[0]\<close> and \<open>word[-1]\<close> raise \<open>IndexError\<close> on an empty sequence.\<close>

definition first_item :: "'a list \<Rightarrow> py_error + 'a" where
  "first_item xs = (case xs of [] \<Rightarrow> Inl IndexError | x # _ \<Rightarrow> Inr x)"

definition last_item :: "'a list \<Rightarrow> py_error + 'a" where
  "last_item xs = (if xs = [] then Inl IndexError else Inr (last xs))"

text \<open>
  \<open>random.Random()\<close> is seeded from the operating system; its state is the sequence of
  draws still to come.  \<open>random()\<close> returns the next draw and advances the state.
\<close>

type_synonym rng = "nat \<Rightarrow> real"

definition random :: "rng \<Rightarrow> real \<times> rng" where
  "random r = (r 0, \<lambda>n. r (Suc n))"

section \<open>What the module imports\<close>

text \<open>
  The helpers of \<open>nemo_text_processing.g2p.data.data_utils\<close> and of \<open>ipa_lexicon\<close>, the
  built-in methods of \<open>str\<close> that depend on the Unicode tables, the decimal-digit class
  of \<open>re\<close>, the reading of files and the packages \<open>jieba\<close> and \<open>pypinyin\<close> are not
  defined in \<open>modules.py\<close>.  They are parameters of the model:
  \<^item> \<open>validate_locale\<close> tells whether the helper of that name returns; it raises
  \<open>ValueError\<close> for a locale it does not support;
  \<^item> \<open>set_grapheme_case\<close> is the helper as a function on text, and
  \<open>grapheme_case_supported\<close> tells for which value of \<open>case\<close> it returns; for any other
  value it raises \<open>ValueError\<close>.  \<open>__init__\<close> meets that exception at the first entry
  of the dictionary, so the case of every object it has built is supported;
  \<open>normalize_unicode_text\<close> is taken to return;
  \<^item> \<open>load_dict_file\<close> is the file branch of \<open>IPAG2P._parse_phoneme_dict\<close>, and
  \<open>read_lines\<close> the lines of a file; either is \<open>None\<close> when the file cannot be read,
  which the model raises as \<open>IOError\<close>;
  \<^item> \<open>jieba_cut\<close> and \<open>pypinyin\<close> are \<open>None\<close> when the package cannot be imported;
  \<open>pypinyin\<close> stands for \<open>lazy_pinyin\<close> with the style, the neutral tone and the
  \<open>errors\<close> callback that \<open>ChineseG2p.__call__\<close> passes.
\<close>

record env =
  re_digit :: "uchar \<Rightarrow> bool"
  str_upper :: "ustr \<Rightarrow> ustr"
  str_isupper :: "ustr \<Rightarrow> bool"
  LATIN_CHARS_ALL :: "uchar \<Rightarrow> bool"
  GRAPHEME_CASE_MIXED :: ustr
  set_grapheme_case :: "ustr \<Rightarrow> ustr option \<Rightarrow> ustr"
  grapheme_case_supported :: "ustr option \<Rightarrow> bool"
  normalize_unicode_text :: "ustr \<Rightarrow> ustr"
  english_word_tokenize :: "ustr \<Rightarrow> (ustr list \<times> bool) list"
  any_locale_word_tokenize :: "ustr \<Rightarrow> (ustr list \<times> bool) list"
  validate_locale :: "ustr \<Rightarrow> bool"
  load_dict_file :: "ustr \<Rightarrow> (ustr \<times> ustr list list) list option"
  read_lines :: "ustr \<Rightarrow> ustr list option"
  str_lower :: "ustr \<Rightarrow> ustr"
  str_isspace :: "uchar \<Rightarrow> bool"
  str_rstrip :: "ustr \<Rightarrow> ustr"
  jieba_cut :: "(ustr \<Rightarrow> ustr list) option"
  pypinyin :: "(ustr \<Rightarrow> ustr list) option"

section \<open>BaseG2p and EnglishG2p\<close>

type_synonym tokenizer = "ustr \<Rightarrow> (ustr list \<times> bool) list"

record ('d, 't) base_g2p =
  phoneme_dict :: 'd
  word_tokenize_func :: 't
  apply_to_oov_word :: "(ustr \<Rightarrow> pron) option"
  mapping_file :: "ustr option"
  heteronym_model :: "(ustr \<Rightarrow> ustr option) option"

type_synonym pron_dict = "ustr \<rightharpoonup> ustr list list"

text \<open>
  \<open>EnglishG2p\<close> adds four attributes; \<open>IPAG2P\<close> declares the same four under the same
  names, so its record extends this one.  \<open>_rng\<close> is the one attribute that
  \<open>parse_one_word\<close> mutates; it is threaded through the functions below.
\<close>

record english_g2p = "(pron_dict, tokenizer) base_g2p" +
  ignore_ambiguous_words :: bool
  heteronyms :: "ustr set option"
  phoneme_probability :: "real option"

text \<open>
  \<open>self.phoneme_probability is not None and self._rng.random() > self.phoneme_probability\<close>:
  no number is drawn when the probability is \<open>None\<close>.
\<close>

definition keep_graphemes :: "real option \<Rightarrow> rng \<Rightarrow> bool \<times> rng" where
  "keep_graphemes probability r =
     (case probability of
        None \<Rightarrow> (False, r)
      | Some p \<Rightarrow> (let (x, r1) = random r in (x > p, r1)))"

text \<open>\<open>word in self.heteronyms\<close>, false when there are no heteronyms.\<close>

definition is_heteronym :: "('a english_g2p_scheme) \<Rightarrow> ustr \<Rightarrow> bool" where
  "is_heteronym g word = (case heteronyms g of None \<Rightarrow> False | Some hs \<Rightarrow> word \<in> hs)"

text \<open>
  The character class of \<open>re.search\<close> in \<open>EnglishG2p.parse_one_word\<close>: the ASCII letters,
  the code points U+00C0 to U+00FF, and the decimal digits of \<open>re\<close>.
\<close>

definition english_char :: "env \<Rightarrow> uchar \<Rightarrow> bool" where
  "english_char E c =
     ((97 \<le> c \<and> c \<le> 122) \<or> (65 \<le> c \<and> c \<le> 90) \<or> (192 \<le> c \<and> c \<le> 255) \<or> re_digit E c)"

text \<open>
  \<open>x in self.phoneme_dict and (not self.ignore_ambiguous_words or
  self.is_unique_in_phoneme_dict(x))\<close>: the lookup in \<open>is_unique_in_phoneme_dict\<close> only
  happens for a key that is present.
\<close>

definition is_unique :: "ustr list list \<Rightarrow> bool" where
  "is_unique prons = (length prons = 1)"

definition usable_entry :: "('a english_g2p_scheme) \<Rightarrow> ustr \<Rightarrow> bool" where
  "usable_entry g x =
     (case phoneme_dict g x of None \<Rightarrow> False
      | Some prons \<Rightarrow> \<not> ignore_ambiguous_words g \<or> is_unique prons)"

text \<open>\<open>return self.phoneme_dict[x][0] + suffix, True\<close>.\<close>

definition first_pron_plus :: "('a english_g2p_scheme) \<Rightarrow> ustr \<Rightarrow> ustr list \<Rightarrow> py_error + pron \<times> bool" where
  "first_pron_plus g x suffix =
     (case phoneme_dict g x of
        None \<Rightarrow> Inl KeyError
      | Some prons \<Rightarrow>
          (case first_item prons of
             Inl e \<Rightarrow> Inl e
           | Inr p \<Rightarrow> Inr (Lst (p @ suffix), True)))"

definition english_parse_one_word ::
  "env \<Rightarrow> ('a english_g2p_scheme) \<Rightarrow> rng \<Rightarrow> ustr \<Rightarrow> (py_error + pron \<times> bool) \<times> rng" where
  "english_parse_one_word E g r word =
     (let (keep, r') = keep_graphemes (phoneme_probability g) r
      in
        if keep then (Inr (Str word, True), r')
        else if \<not> re_search (english_char E) word then (Inr (Lst (list_of_str word), True), r')
        else if is_heteronym g word
          then (Inr (Str word, True), r')
        else if length word > 2 \<and> endswith word (apostrophe # U ''s'')
                \<and> phoneme_dict g word = None \<and> usable_entry g (drop_last 2 word)
          then (first_pron_plus g (drop_last 2 word) [U ''Z''], r')
        else if length word > 1 \<and> endswith word (U ''s'')
                \<and> phoneme_dict g word = None \<and> usable_entry g (drop_last 1 word)
          then (first_pron_plus g (drop_last 1 word) [U ''Z''], r')
        else if usable_entry g word then (first_pron_plus g word [], r')
        else (case apply_to_oov_word g of
                Some f \<Rightarrow> (Inr (f word, True), r')
              | None \<Rightarrow> (Inr (Str word, False), r')))"

text \<open>
  The loop over the hyphen-separated sub-words, the same in \<open>EnglishG2p.__call__\<close> and in
  \<open>IPAG2P.__call__\<close>: every sub-word is parsed, its status is dropped, and its items and
  one hyphen are appended to \<open>pron\<close>.
\<close>

fun sub_words_loop ::
  "(rng \<Rightarrow> ustr \<Rightarrow> (py_error + pron \<times> bool) \<times> rng) \<Rightarrow> rng \<Rightarrow> ustr list \<Rightarrow> ustr list
    \<Rightarrow> (py_error + ustr list) \<times> rng" where
  "sub_words_loop parse r [] pron = (Inr pron, r)"
| "sub_words_loop parse r (sub_word # rest) pron =
     (case parse r sub_word of
        (Inl e, r') \<Rightarrow> (Inl e, r')
      | (Inr (p, _), r') \<Rightarrow> sub_words_loop parse r' rest (pron @ extend_items p @ [[hyphen]]))"

text \<open>\<open>pron.pop()\<close> removes the last item and raises \<open>IndexError\<close> on an empty list.\<close>

definition pop :: "'a list \<Rightarrow> py_error + 'a list" where
  "pop xs = (if xs = [] then Inl IndexError else Inr (butlast xs))"

definition parse_by_hyphen ::
  "(rng \<Rightarrow> ustr \<Rightarrow> (py_error + pron \<times> bool) \<times> rng) \<Rightarrow> rng \<Rightarrow> ustr list
    \<Rightarrow> (py_error + ustr list) \<times> rng" where
  "parse_by_hyphen parse r subs =
     (case sub_words_loop parse r subs [] of
        (Inl e, r') \<Rightarrow> (Inl e, r')
      | (Inr pron, r') \<Rightarrow> (pop pron, r'))"

text \<open>One iteration of the loop of \<open>EnglishG2p.__call__\<close>: the items appended to \<open>prons\<close>.\<close>

definition english_call_word ::
  "env \<Rightarrow> ('a english_g2p_scheme) \<Rightarrow> rng \<Rightarrow> ustr list \<times> bool \<Rightarrow> (py_error + ustr list) \<times> rng" where
  "english_call_word E g r w =
     (case w of (word, without_changes) \<Rightarrow>
        if without_changes then (Inr word, r)
        else (case first_item word of
                Inl e \<Rightarrow> (Inl e, r)
              | Inr word_str \<Rightarrow>
                  (let word_by_hyphen = split hyphen word_str in
                   case english_parse_one_word E g r word_str of
                     (Inl e, r') \<Rightarrow> (Inl e, r')
                   | (Inr (pron, is_handled), r') \<Rightarrow>
                       if \<not> is_handled \<and> length word_by_hyphen > 1
                       then parse_by_hyphen (english_parse_one_word E g) r' word_by_hyphen
                       else (Inr (extend_items pron), r'))))"

fun call_loop ::
  "(rng \<Rightarrow> ustr list \<times> bool \<Rightarrow> (py_error + ustr list) \<times> rng) \<Rightarrow> rng \<Rightarrow> (ustr list \<times> bool) list
    \<Rightarrow> ustr list \<Rightarrow> (py_error + ustr list) \<times> rng" where
  "call_loop step r [] prons = (Inr prons, r)"
| "call_loop step r (w # ws) prons =
     (case step r w of
        (Inl e, r') \<Rightarrow> (Inl e, r')
      | (Inr items, r') \<Rightarrow> call_loop step r' ws (prons @ items))"

definition english_call ::
  "env \<Rightarrow> ('a english_g2p_scheme) \<Rightarrow> rng \<Rightarrow> ustr \<Rightarrow> (py_error + ustr list) \<times> rng" where
  "english_call E g r text = call_loop (english_call_word E g) r (word_tokenize_func g text) []"

section \<open>IPAG2P\<close>

record ipa_g2p = english_g2p +
  use_stresses :: bool
  grapheme_case :: "ustr option"
  grapheme_prefix :: ustr
  g2p_locale :: "ustr option"
  use_chars :: bool
  symbols :: "ustr set"

definition STRESS_SYMBOLS :: "ustr list" where
  "STRESS_SYMBOLS = [[712], [716]]"

text \<open>
  \<open>CHAR_REGEX\<close> is the class of \<open>LATIN_CHARS_ALL\<close> and the decimal digits; \<open>PUNCT_REGEX\<close> is
  its complement.
\<close>

definition CHAR_REGEX :: "env \<Rightarrow> uchar \<Rightarrow> bool" where
  "CHAR_REGEX E c = (LATIN_CHARS_ALL E c \<or> re_digit E c)"

definition PUNCT_REGEX :: "env \<Rightarrow> uchar \<Rightarrow> bool" where
  "PUNCT_REGEX E c = (\<not> (LATIN_CHARS_ALL E c \<or> re_digit E c))"

definition prepend_prefix_for_one_word :: "ustr \<Rightarrow> ustr \<Rightarrow> ustr list" where
  "prepend_prefix_for_one_word prefix word = map (\<lambda>character. prefix @ [character]) word"

text \<open>
  The search for \<open>word_found\<close>, the same in both suffix rules: nothing is looked for when
  the word or its uppercase form is a key; otherwise the stem is tried, then its
  uppercase form.
\<close>

definition word_found :: "env \<Rightarrow> ('a ipa_g2p_scheme) \<Rightarrow> ustr \<Rightarrow> ustr \<Rightarrow> ustr option" where
  "word_found E g word stem =
     (if phoneme_dict g word = None \<and> phoneme_dict g (str_upper E word) = None
      then (if phoneme_dict g stem \<noteq> None then Some stem
            else if phoneme_dict g (str_upper E stem) \<noteq> None then Some (str_upper E stem)
            else None)
      else None)"

text \<open>The two en-US rules; \<open>None\<close> when the rule does not return.\<close>

definition apostrophe_s_rule ::
  "env \<Rightarrow> ('a ipa_g2p_scheme) \<Rightarrow> ustr \<Rightarrow> (py_error + pron \<times> bool) option" where
  "apostrophe_s_rule E g word =
     (if length word > 2 \<and> (endswith word (apostrophe # U ''s'') \<or> endswith word (apostrophe # U ''S''))
      then (case word_found E g word (drop_last 2 word) of
              None \<Rightarrow> None
            | Some found \<Rightarrow>
                if usable_entry g found
                then Some (case last_item found of
                             Inl e \<Rightarrow> Inl e
                           | Inr c \<Rightarrow>
                               if [c] \<in> set [U ''T'', U ''t''] then first_pron_plus g found [U ''s'']
                               else if [c] \<in> set [U ''S'', U ''s''] then first_pron_plus g found [[618], U ''z'']
                               else first_pron_plus g found [U ''z''])
                else None)
      else None)"

definition s_rule ::
  "env \<Rightarrow> ('a ipa_g2p_scheme) \<Rightarrow> ustr \<Rightarrow> (py_error + pron \<times> bool) option" where
  "s_rule E g word =
     (if length word > 1 \<and> (endswith word (U ''s'') \<or> endswith word (U ''S''))
      then (case word_found E g word (drop_last 1 word) of
              None \<Rightarrow> None
            | Some found \<Rightarrow>
                if usable_entry g found
                then Some (case last_item found of
                             Inl e \<Rightarrow> Inl e
                           | Inr c \<Rightarrow>
                               if [c] \<in> set [U ''T'', U ''t''] then first_pron_plus g found [U ''s'']
                               else first_pron_plus g found [U ''z''])
                else None)
      else None)"

definition en_us_rules ::
  "env \<Rightarrow> ('a ipa_g2p_scheme) \<Rightarrow> ustr \<Rightarrow> (py_error + pron \<times> bool) option" where
  "en_us_rules E g word =
     (if g2p_locale g = Some (U ''en-US'')
      then (case apostrophe_s_rule E g word of Some res \<Rightarrow> Some res | None \<Rightarrow> s_rule E g word)
      else None)"

text \<open>The last two statements of \<open>parse_one_word\<close>.\<close>

definition oov :: "('a ipa_g2p_scheme) \<Rightarrow> ustr \<Rightarrow> py_error + pron \<times> bool" where
  "oov g word =
     (case apply_to_oov_word g of
        Some f \<Rightarrow> Inr (f word, True)
      | None \<Rightarrow> Inr (Lst (prepend_prefix_for_one_word (grapheme_prefix g) word), False))"

definition ipa_parse_one_word ::
  "env \<Rightarrow> ('a ipa_g2p_scheme) \<Rightarrow> rng \<Rightarrow> ustr \<Rightarrow> (py_error + pron \<times> bool) \<times> rng" where
  "ipa_parse_one_word E g r word0 =
     (let word = set_grapheme_case E word0 (grapheme_case g) in
      if \<not> re_search (CHAR_REGEX E) word then (Inr (Lst (list_of_str word), True), r)
      else
        (let (keep, r') = keep_graphemes (phoneme_probability g) r
         in
           if keep then (Inr (Lst (prepend_prefix_for_one_word (grapheme_prefix g) word), True), r')
           else if is_heteronym g word
             then (Inr (Lst (prepend_prefix_for_one_word (grapheme_prefix g) word), True), r')
           else (case en_us_rules E g word of
                   Some res \<Rightarrow> (res, r')
                 | None \<Rightarrow>
                     if usable_entry g word then (first_pron_plus g word [], r')
                     else if grapheme_case g = Some (GRAPHEME_CASE_MIXED E)
                             \<and> phoneme_dict g word = None
                             \<and> phoneme_dict g (str_upper E word) \<noteq> None
                       then (let word = str_upper E word in
                             if usable_entry g word then (first_pron_plus g word [], r')
                             else (oov g word, r'))
                     else (oov g word, r'))))"

text \<open>One iteration of the loop of \<open>IPAG2P.__call__\<close>.\<close>

definition ipa_call_word ::
  "env \<Rightarrow> ('a ipa_g2p_scheme) \<Rightarrow> rng \<Rightarrow> ustr list \<times> bool \<Rightarrow> (py_error + ustr list) \<times> rng" where
  "ipa_call_word E g r w =
     (case w of (words, without_changes) \<Rightarrow>
        if without_changes then (Inr (map (\<lambda>word. grapheme_prefix g @ word) words), r)
        else if length words \<noteq> 1 then (Inl AssertionError, r)
        else (case first_item words of
                Inl e \<Rightarrow> (Inl e, r)
              | Inr word \<Rightarrow>
                  (case ipa_parse_one_word E g r word of
                     (Inl e, r') \<Rightarrow> (Inl e, r')
                   | (Inr (pron, is_handled), r') \<Rightarrow>
                       if \<not> is_handled \<and> length (split hyphen word) > 1
                       then parse_by_hyphen (ipa_parse_one_word E g) r' (split hyphen word)
                       else (Inr (extend_items pron), r'))))"

text \<open>
  \<open>IPAG2P.__call__\<close>.  A heteronym model that raises is skipped; \<open>None\<close> stands for the
  exception.
\<close>

definition ipa_call ::
  "env \<Rightarrow> ('a ipa_g2p_scheme) \<Rightarrow> rng \<Rightarrow> ustr \<Rightarrow> (py_error + ustr list) \<times> rng" where
  "ipa_call E g r text0 =
     (let text1 = normalize_unicode_text E text0;
          text2 = (case heteronym_model g of
                     None \<Rightarrow> text1
                   | Some disambiguate \<Rightarrow>
                       (case disambiguate text1 of None \<Rightarrow> text1 | Some t \<Rightarrow> t))
      in call_loop (ipa_call_word E g) r (word_tokenize_func g text2) [])"

text \<open>The tokens that the loop of \<open>IPAG2P.__call__\<close> runs over.\<close>

definition ipa_call_words :: "env \<Rightarrow> ('a ipa_g2p_scheme) \<Rightarrow> ustr \<Rightarrow> (ustr list \<times> bool) list" where
  "ipa_call_words E g text0 =
     (let text1 = normalize_unicode_text E text0;
          text2 = (case heteronym_model g of
                     None \<Rightarrow> text1
                   | Some disambiguate \<Rightarrow>
                       (case disambiguate text1 of None \<Rightarrow> text1 | Some t \<Rightarrow> t))
      in word_tokenize_func g text2)"

subsection \<open>Construction\<close>

text \<open>
  A \<open>dict\<close> keeps its keys in insertion order; \<open>d.update({k: v})\<close> replaces the value
  of a key that is present and appends a new key otherwise.
\<close>

fun dict_store :: "('k \<times> 'v) list \<Rightarrow> 'k \<Rightarrow> 'v \<Rightarrow> ('k \<times> 'v) list" where
  "dict_store [] k v = [(k, v)]"
| "dict_store ((k', v') # d) k v =
     (if k' = k then (k, v) # d else (k', v') # dict_store d k v)"

datatype dict_arg = DictPath ustr | DictObj "(ustr \<times> ustr list list) list"

datatype heteronyms_arg = HeteronymsPath ustr | HeteronymsList "ustr list" | HeteronymsNone

definition parse_phoneme_dict :: "env \<Rightarrow> dict_arg \<Rightarrow> py_error + (ustr \<times> ustr list list) list" where
  "parse_phoneme_dict E phoneme_dict_arg =
     (case phoneme_dict_arg of
        DictPath path \<Rightarrow> (case load_dict_file E path of None \<Rightarrow> Inl IOError | Some d \<Rightarrow> Inr d)
      | DictObj d \<Rightarrow>
          Inr (fold (\<lambda>(word, prons) phoneme_dict_obj.
                       dict_store phoneme_dict_obj (normalize_unicode_text E word)
                         (map (map (normalize_unicode_text E)) prons))
                 d []))"

text \<open>
  One iteration of the loop of \<open>_normalize_dict\<close>, on the pair \<open>(g2p_dict, symbols)\<close>.  It
  reads four attributes that \<open>__init__\<close> has set before the call.
\<close>

definition normalize_entry ::
  "env \<Rightarrow> ustr option \<Rightarrow> bool \<Rightarrow> ustr \<Rightarrow> bool \<Rightarrow> ustr \<times> ustr list list
    \<Rightarrow> pron_dict \<times> ustr set \<Rightarrow> pron_dict \<times> ustr set" where
  "normalize_entry E gcase chars pre stresses entry acc =
     (case entry of (word, prons) \<Rightarrow>
      case acc of (g2p_dict, syms) \<Rightarrow>
        (let word_new = set_grapheme_case E word gcase;
             syms1 = (if chars
                      then syms \<union> set (prepend_prefix_for_one_word pre
                                          (filter (\<lambda>c. \<not> PUNCT_REGEX E c) word_new))
                      else syms);
             prons_new = (if \<not> stresses
                          then map (filter (\<lambda>symbol. symbol \<notin> set STRESS_SYMBOLS)) prons
                          else prons);
             syms2 = syms1 \<union> (\<Union>pron \<in> set prons_new. set pron);
             dict1 = g2p_dict(word_new \<mapsto> prons_new);
             dict2 = (if gcase = Some (GRAPHEME_CASE_MIXED E) \<and> \<not> str_isupper E word_new
                      then dict1(str_upper E word_new \<mapsto> prons_new)
                      else dict1)
         in (dict2, syms2)))"

definition normalize_dict ::
  "env \<Rightarrow> ustr option \<Rightarrow> bool \<Rightarrow> ustr \<Rightarrow> bool \<Rightarrow> (ustr \<times> ustr list list) list
    \<Rightarrow> pron_dict \<times> ustr set" where
  "normalize_dict E gcase chars pre stresses phoneme_dict_obj =
     fold (normalize_entry E gcase chars pre stresses) phoneme_dict_obj (Map.empty, {})"

record ipa_args =
  arg_phoneme_dict :: dict_arg
  arg_locale :: "ustr option"
  arg_apply_to_oov_word :: "(ustr \<Rightarrow> pron) option"
  arg_ignore_ambiguous_words :: bool
  arg_heteronyms :: heteronyms_arg
  arg_use_chars :: bool
  arg_phoneme_probability :: "real option"
  arg_use_stresses :: bool
  arg_grapheme_case :: "ustr option"
  arg_grapheme_prefix :: ustr
  arg_mapping_file :: "ustr option"

text \<open>The heteronyms as \<open>__init__\<close> stores them.\<close>

definition init_heteronyms :: "env \<Rightarrow> ustr option \<Rightarrow> heteronyms_arg \<Rightarrow> py_error + ustr set option" where
  "init_heteronyms E gcase h =
     (case (case h of
              HeteronymsPath path \<Rightarrow>
                (case read_lines E path of
                   None \<Rightarrow> Inl IOError
                 | Some ls \<Rightarrow> Inr (Some (set (map (str_rstrip E) ls))))
            | HeteronymsList l \<Rightarrow> Inr (Some (set l))
            | HeteronymsNone \<Rightarrow> Inr None) of
        Inl e \<Rightarrow> Inl e
      | Inr None \<Rightarrow> Inr None
      | Inr (Some hs) \<Rightarrow>
          Inr (Some (if hs \<noteq> {} then (\<lambda>het. set_grapheme_case E het gcase) ` hs else hs)))"

text \<open>
  \<open>IPAG2P.__init__\<close>.  \<open>validate_locale\<close> raises \<open>ValueError\<close> for a locale it does not
  support.  \<open>_normalize_dict\<close> calls \<open>set_grapheme_case\<close> on the word of its first entry,
  so with a dictionary that has entries a case that the helper does not support raises
  \<open>ValueError\<close> before anything is stored.
\<close>

definition ipa_init :: "env \<Rightarrow> ipa_args \<Rightarrow> py_error + ipa_g2p" where
  "ipa_init E a =
     (if (case arg_locale a of None \<Rightarrow> False | Some l \<Rightarrow> \<not> validate_locale E l)
      then Inl ValueError
      else
        (let chars = (if \<not> arg_use_chars a \<and> arg_phoneme_probability a \<noteq> None then True
                      else arg_use_chars a)
         in case parse_phoneme_dict E (arg_phoneme_dict a) of
              Inl e \<Rightarrow> Inl e
            | Inr phoneme_dict_obj \<Rightarrow>
                if phoneme_dict_obj = [] then Inl ValueError
                else if \<not> grapheme_case_supported E (arg_grapheme_case a) then Inl ValueError
                else
                  (case normalize_dict E (arg_grapheme_case a) chars (arg_grapheme_prefix a)
                          (arg_use_stresses a) phoneme_dict_obj of
                     (d, syms) \<Rightarrow>
                       (case init_heteronyms E (arg_grapheme_case a) (arg_heteronyms a) of
                          Inl e \<Rightarrow> Inl e
                        | Inr hs \<Rightarrow>
                            Inr \<lparr> phoneme_dict = d,
                                  word_tokenize_func =
                                    (if arg_locale a = Some (U ''en-US'') then english_word_tokenize E
                                     else any_locale_word_tokenize E),
                                  apply_to_oov_word = arg_apply_to_oov_word a,
                                  mapping_file = arg_mapping_file a,
                                  heteronym_model = None,
                                  ignore_ambiguous_words = arg_ignore_ambiguous_words a,
                                  heteronyms = hs,
                                  phoneme_probability = arg_phoneme_probability a,
                                  use_stresses = arg_use_stresses a,
                                  grapheme_case = arg_grapheme_case a,
                                  grapheme_prefix = arg_grapheme_prefix a,
                                  g2p_locale = arg_locale a,
                                  use_chars = chars,
                                  symbols = syms \<rparr>))))"

definition replace_dict :: "env \<Rightarrow> ipa_g2p \<Rightarrow> dict_arg \<Rightarrow> py_error + ipa_g2p" where
  "replace_dict E g phoneme_dict_arg =
     (case parse_phoneme_dict E phoneme_dict_arg of
        Inl e \<Rightarrow> Inl e
      | Inr phoneme_dict_obj \<Rightarrow> Inr (g\<lparr>phoneme_dict := map_of phoneme_dict_obj\<rparr>))"

section \<open>ChineseG2p\<close>

record chinese_g2p = "(ustr \<rightharpoonup> ustr list, tokenizer option) base_g2p" +
  tones :: "ustr \<rightharpoonup> ustr"
  word_segmenter :: "ustr \<Rightarrow> ustr list"
  lazy_pinyin :: "ustr \<Rightarrow> ustr list"

text \<open>\<open>s.split()\<close>: the maximal runs of characters that are not whitespace.\<close>

fun split_whitespace :: "(uchar \<Rightarrow> bool) \<Rightarrow> ustr \<Rightarrow> ustr \<Rightarrow> ustr list" where
  "split_whitespace sp [] cur = (if cur = [] then [] else [cur])"
| "split_whitespace sp (c # cs) cur =
     (if sp c then (if cur = [] then split_whitespace sp cs [] else cur # split_whitespace sp cs [])
      else split_whitespace sp cs (cur @ [c]))"

fun parse_pinyin_lines :: "env \<Rightarrow> ustr list \<Rightarrow> (ustr \<rightharpoonup> ustr list) \<Rightarrow> py_error + (ustr \<rightharpoonup> ustr list)" where
  "parse_pinyin_lines E [] g2p_dict = Inr g2p_dict"
| "parse_pinyin_lines E (line # rest) g2p_dict =
     (case split 9 line of
        p0 # p1 # _ \<Rightarrow>
          parse_pinyin_lines E rest
            (g2p_dict(str_lower E p0 \<mapsto> map (\<lambda>pron. U ''#'' @ pron) (split_whitespace (str_isspace E) p1 [])))
      | _ \<Rightarrow> Inl IndexError)"

definition parse_as_pinyin_dict :: "env \<Rightarrow> ustr \<Rightarrow> py_error + (ustr \<rightharpoonup> ustr list)" where
  "parse_as_pinyin_dict E phoneme_dict_path =
     (case read_lines E phoneme_dict_path of
        None \<Rightarrow> Inl IOError
      | Some ls \<Rightarrow> parse_pinyin_lines E ls Map.empty)"

definition TONES :: "ustr \<rightharpoonup> ustr" where
  "TONES = map_of [(U ''1'', U ''#1''), (U ''2'', U ''#2''), (U ''3'', U ''#3''),
                   (U ''4'', U ''#4''), (U ''5'', U ''#5'')]"



text \<open>The second loop of \<open>ChineseG2p.__call__\<close>, on \<open>phoneme_seq\<close>.\<close>

fun phoneme_loop :: "chinese_g2p \<Rightarrow> ustr list \<Rightarrow> ustr list \<Rightarrow> py_error + ustr list" where
  "phoneme_loop g [] phoneme_seq = Inr phoneme_seq"
| "phoneme_loop g (pinyin # rest) phoneme_seq =
     (case last_item pinyin of
        Inl e \<Rightarrow> Inl e
      | Inr c \<Rightarrow>
          (case tones g [c] of
             Some tone \<Rightarrow>
               (case phoneme_dict g (drop_last 1 pinyin) of
                  None \<Rightarrow> Inl AssertionError
                | Some phonemes \<Rightarrow> phoneme_loop g rest (phoneme_seq @ phonemes @ [tone]))
           | None \<Rightarrow> phoneme_loop g rest (phoneme_seq @ [pinyin])))"

definition chinese_call :: "chinese_g2p \<Rightarrow> ustr \<Rightarrow> py_error + ustr list" where
  "chinese_call g text0 =
     (let pinyin_seq = concat (map (lazy_pinyin g) (word_segmenter g text0))
      in phoneme_loop g pinyin_seq [])"

section \<open>Example configurations\<close>

text \<open>
  An environment, dictionaries and objects on which the model is evaluated.  The
  environment is the ASCII and Latin-1 part of the library functions.
\<close>

definition ascii_upper :: "ustr \<Rightarrow> ustr" where
  "ascii_upper s = map (\<lambda>c. if 97 \<le> c \<and> c \<le> 122 then c - 32 else c) s"

definition ascii_lower :: "ustr \<Rightarrow> ustr" where
  "ascii_lower s = map (\<lambda>c. if 65 \<le> c \<and> c \<le> 90 then c + 32 else c) s"

definition one_word :: tokenizer where
  "one_word t = [([t], False)]"

definition space_words :: tokenizer where
  "space_words t = map (\<lambda>w. ([w], False)) (split 32 t)"

definition example_env :: env where
  "example_env =
     \<lparr> re_digit = (\<lambda>c. 48 \<le> c \<and> c \<le> 57),
       str_upper = ascii_upper,
       str_isupper = (\<lambda>s. list_ex (\<lambda>c. 65 \<le> c \<and> c \<le> 90) s \<and> \<not> list_ex (\<lambda>c. 97 \<le> c \<and> c \<le> 122) s),
       LATIN_CHARS_ALL = (\<lambda>c. (65 \<le> c \<and> c \<le> 90) \<or> (97 \<le> c \<and> c \<le> 122) \<or> (192 \<le> c \<and> c \<le> 214)
                               \<or> (216 \<le> c \<and> c \<le> 246) \<or> (248 \<le> c \<and> c \<le> 255)),
       GRAPHEME_CASE_MIXED = U ''mixed'',
       set_grapheme_case = (\<lambda>t c. if c = Some (U ''upper'') then ascii_upper t
                                  else if c = Some (U ''lower'') then ascii_lower t else t),
       grapheme_case_supported = (\<lambda>c. c \<in> set [Some (U ''upper''), Some (U ''lower''), Some (U ''mixed'')]),
       normalize_unicode_text = (\<lambda>t. t),
       english_word_tokenize = one_word,
       any_locale_word_tokenize = one_word,
       validate_locale = (\<lambda>l. l \<in> set [U ''en-US'', U ''de-DE'', U ''es-ES'']),
       load_dict_file = (\<lambda>path. None),
       read_lines = (\<lambda>path. None),
       str_lower = ascii_lower,
       str_isspace = (\<lambda>c. c \<in> set [9, 10, 13, 32]),
       str_rstrip = (\<lambda>s. rev (dropWhile (\<lambda>c. c \<in> set [9, 10, 13, 32]) (rev s))),
       jieba_cut = None,
       pypinyin = Some (\<lambda>t. [t]) \<rparr>"

definition no_draws :: rng where
  "no_draws n = 0"

definition two_draws :: rng where
  "two_draws n = (if n = 0 then 9 / 10 else 1 / 10)"

definition example_dict :: pron_dict where
  "example_dict =
     map_of [(U ''ab'', [[U ''AE1'', U ''B'']]),
             (U ''ab'' @ [apostrophe], [[U ''AH0'', U ''B'']]),
             (U ''live'', [[U ''L'', U ''IH1'', U ''V''], [U ''L'', U ''AY1'', U ''V'']]),
             (U ''lead'', [[U ''L'', U ''IY1'', U ''D''], [U ''L'', U ''EH1'', U ''D'']]),
             (U ''read'', [[U ''R'', U ''IY1'', U ''D'']]),
             (U ''none'', [])]"

definition example_english :: english_g2p where
  "example_english =
     \<lparr> phoneme_dict = example_dict,
       word_tokenize_func = one_word,
       apply_to_oov_word = None,
       mapping_file = None,
       heteronym_model = None,
       ignore_ambiguous_words = True,
       heteronyms = Some (set [U ''lead'', U ''reads'']),
       phoneme_probability = None \<rparr>"

definition example_ipa_dict :: "(ustr \<times> ustr list list) list" where
  "example_ipa_dict =
     [(U ''ab'', [[[712], U ''a'', U ''b'']]),
      (U ''live'', [[U ''l'', [618], U ''v''], [U ''l'', U ''a'', [618], U ''v'']]),
      (U ''airport'', [[[712], U ''e'', U ''r'', [716], U ''p'', U ''o'', U ''r'', U ''t'']]),
      (U ''jones'', [[U ''d'', U ''j'', U ''o'', U ''n'', U ''z'']]),
      (U ''read'', [[U ''r'', U ''i'', U ''d'']]),
      (U ''none'', [])]"

definition example_ipa_args :: ipa_args where
  "example_ipa_args =
     \<lparr> arg_phoneme_dict = DictObj example_ipa_dict,
       arg_locale = Some (U ''en-US''),
       arg_apply_to_oov_word = None,
       arg_ignore_ambiguous_words = True,
       arg_heteronyms = HeteronymsList [U ''lead'', U ''reads''],
       arg_use_chars = False,
       arg_phoneme_probability = None,
       arg_use_stresses = False,
       arg_grapheme_case = Some (U ''upper''),
       arg_grapheme_prefix = U ''#'',
       arg_mapping_file = None \<rparr>"

definition example_ipa :: ipa_g2p where
  "example_ipa =
     \<lparr> phoneme_dict =
         map_of [(U ''AB'', [[U ''a'', U ''b'']]),
                 (U ''LIVE'', [[U ''l'', [618], U ''v''], [U ''l'', U ''a'', [618], U ''v'']]),
                 (U ''AIRPORT'', [[U ''e'', U ''r'', U ''p'', U ''o'', U ''r'', U ''t'']]),
                 (U ''JONES'', [[U ''d'', U ''j'', U ''o'', U ''n'', U ''z'']]),
                 (U ''READ'', [[U ''r'', U ''i'', U ''d'']]),
                 (U ''NONE'', [])],
       word_tokenize_func = one_word,
       apply_to_oov_word = None,
       mapping_file = None,
       heteronym_model = None,
       ignore_ambiguous_words = True,
       heteronyms = Some (set [U ''LEAD'', U ''READS'']),
       phoneme_probability = None,
       use_stresses = False,
       grapheme_case = Some (U ''upper''),
       grapheme_prefix = U ''#'',
       g2p_locale = Some (U ''en-US''),
       use_chars = False,
       symbols = {} \<rparr>"

definition example_pinyin_dict :: "ustr \<rightharpoonup> ustr list" where
  "example_pinyin_dict = map_of [(U ''wo'', [U ''#w'', U ''#o'']), (U ''le'', [U ''#l'', U ''#e''])]"

definition example_chinese :: chinese_g2p where
  "example_chinese =
     \<lparr> phoneme_dict = example_pinyin_dict,
       word_tokenize_func = None,
       apply_to_oov_word = None,
       mapping_file = None,
       heteronym_model = None,
       tones = TONES,
       word_segmenter = (\<lambda>x. [x]),
       lazy_pinyin = split 32 \<rparr>"

definition example_pinyin_env :: env where
  "example_pinyin_env =
     example_env\<lparr>read_lines := (\<lambda>path. if path = U ''pinyin.txt''
                                        then Some [U ''WO'' @ [9] @ U ''w o'', U ''le'' @ [9] @ U ''l e'']
                                        else None)\<rparr>"

section \<open>The hyphen fallback in the words of the specification\<close>

text \<open>
  These two functions restate the fallback as the specification words it; they are
  compared below with the loop of the source.  \<open>parse_each\<close> parses every sub-word in
  turn and drops its status; \<open>joined_by_hyphen\<close> concatenates the results with one
  hyphen token between two neighbours and none at the end.
\<close>

fun parse_each ::
  "(rng \<Rightarrow> ustr \<Rightarrow> (py_error + pron \<times> bool) \<times> rng) \<Rightarrow> rng \<Rightarrow> ustr list
    \<Rightarrow> (py_error + pron list) \<times> rng" where
  "parse_each parse r [] = (Inr [], r)"
| "parse_each parse r (sub_word # rest) =
     (case parse r sub_word of
        (Inl e, r') \<Rightarrow> (Inl e, r')
      | (Inr (p, _), r') \<Rightarrow>
          (case parse_each parse r' rest of
             (Inl e, r'') \<Rightarrow> (Inl e, r'')
           | (Inr ps, r'') \<Rightarrow> (Inr (p # ps), r'')))"

fun joined_by_hyphen :: "ustr list list \<Rightarrow> ustr list" where
  "joined_by_hyphen [] = []"
| "joined_by_hyphen [x] = x"
| "joined_by_hyphen (x # y # zs) = x @ [[hyphen]] @ joined_by_hyphen (y # zs)"

section \<open>The output of ChineseG2p in the words of the specification\<close>

text \<open>
  A syllable ends in a tone digit when its last character is one of \<open>1\<close> to \<open>5\<close>; its
  base is the syllable without that digit.  A syllable is covered when it does not end
  in a tone digit or its base is a key of the dictionary.  A covered syllable with a
  tone digit emits the phonemes of its base and the tone token; any other syllable is
  emitted as it is.
\<close>

definition ends_in_tone_digit :: "ustr \<Rightarrow> bool" where
  "ends_in_tone_digit s = (s \<noteq> [] \<and> last s \<in> set (U ''12345''))"

definition covered :: "chinese_g2p \<Rightarrow> ustr \<Rightarrow> bool" where
  "covered g s = (if ends_in_tone_digit s then phoneme_dict g (drop_last 1 s) \<noteq> None else True)"

definition emitted :: "chinese_g2p \<Rightarrow> ustr \<Rightarrow> ustr list" where
  "emitted g s =
     (if ends_in_tone_digit s
      then (case phoneme_dict g (drop_last 1 s) of
              Some phonemes \<Rightarrow> phonemes @ [U ''#'' @ [last s]]
            | None \<Rightarrow> [])
      else [s])"

section \<open>Evaluation and basic facts\<close>

lemmas eval_defs =
  U_def apostrophe_def hyphen_def list_of_str_def endswith_def drop_last_def first_item_def
  last_item_def re_search_def keep_graphemes_def random_def is_heteronym_def english_char_def
  is_unique_def usable_entry_def first_pron_plus_def pop_def parse_by_hyphen_def CHAR_REGEX_def
  PUNCT_REGEX_def prepend_prefix_for_one_word_def word_found_def apostrophe_s_rule_def
  s_rule_def en_us_rules_def oov_def STRESS_SYMBOLS_def Let_def

lemmas example_defs =
  ascii_upper_def ascii_lower_def one_word_def space_words_def example_env_def no_draws_def two_draws_def
  example_dict_def example_english_def example_ipa_dict_def example_ipa_args_def example_ipa_def

lemma keep_graphemes_None: "keep_graphemes None r = (False, r)"
  by (simp add: keep_graphemes_def)

lemma english_dict_unique:
  assumes "keep_graphemes (phoneme_probability g) r = (False, r')"
    and "re_search (english_char E) word"
    and "\<not> is_heteronym g word"
    and "phoneme_dict g word = Some [p]"
  shows "english_parse_one_word E g r word = (Inr (Lst p, True), r')"
  using assms
  by (simp add: english_parse_one_word_def usable_entry_def is_unique_def first_pron_plus_def
      first_item_def)

lemma english_dict_ambiguous:
  assumes "keep_graphemes (phoneme_probability g) r = (False, r')"
    and "re_search (english_char E) word"
    and "\<not> is_heteronym g word"
    and "phoneme_dict g word = Some prons" "length prons > 1"
    and "ignore_ambiguous_words g" "apply_to_oov_word g = None"
  shows "english_parse_one_word E g r word = (Inr (Str word, False), r')"
  using assms
  by (simp add: english_parse_one_word_def usable_entry_def is_unique_def)

lemma word_found_present:
  "phoneme_dict g word \<noteq> None \<Longrightarrow> word_found E g word stem = None"
  by (simp add: word_found_def)

lemma en_us_rules_present:
  "phoneme_dict g word \<noteq> None \<Longrightarrow> en_us_rules E g word = None"
  by (simp add: en_us_rules_def apostrophe_s_rule_def s_rule_def word_found_present)

lemma ipa_dict_unique:
  assumes "word = set_grapheme_case E word0 (grapheme_case g)"
    and "keep_graphemes (phoneme_probability g) r = (False, r')"
    and "re_search (CHAR_REGEX E) word"
    and "\<not> is_heteronym g word"
    and "phoneme_dict g word = Some [p]"
  shows "ipa_parse_one_word E g r word0 = (Inr (Lst p, True), r')"
  using assms
  by (simp add: ipa_parse_one_word_def Let_def en_us_rules_present usable_entry_def
      is_unique_def first_pron_plus_def first_item_def)

lemma ipa_dict_ambiguous:
  assumes "word = set_grapheme_case E word0 (grapheme_case g)"
    and "keep_graphemes (phoneme_probability g) r = (False, r')"
    and "re_search (CHAR_REGEX E) word"
    and "\<not> is_heteronym g word"
    and "phoneme_dict g word = Some prons" "length prons > 1"
    and "ignore_ambiguous_words g" "apply_to_oov_word g = None"
  shows "ipa_parse_one_word E g r word0 =
           (Inr (Lst (prepend_prefix_for_one_word (grapheme_prefix g) word), False), r')"
  using assms
  by (simp add: ipa_parse_one_word_def Let_def en_us_rules_present usable_entry_def
      is_unique_def oov_def)

lemma english_heteronym:
  assumes "keep_graphemes (phoneme_probability g) r = (False, r')"
    and "re_search (english_char E) word"
    and "is_heteronym g word"
  shows "english_parse_one_word E g r word = (Inr (Str word, True), r')"
  using assms by (simp add: english_parse_one_word_def)

lemma ipa_heteronym:
  assumes "word = set_grapheme_case E word0 (grapheme_case g)"
    and "keep_graphemes (phoneme_probability g) r = (False, r')"
    and "re_search (CHAR_REGEX E) word"
    and "is_heteronym g word"
  shows "ipa_parse_one_word E g r word0 =
           (Inr (Lst (prepend_prefix_for_one_word (grapheme_prefix g) word), True), r')"
  using assms by (simp add: ipa_parse_one_word_def Let_def)

text \<open>What a successful \<open>IPAG2P.__init__\<close> has stored.\<close>

lemma ipa_init_Inr:
  assumes "ipa_init E a = Inr g"
  shows "\<exists>obj hs.
           parse_phoneme_dict E (arg_phoneme_dict a) = Inr obj \<and> obj \<noteq> [] \<and>
           grapheme_case_supported E (arg_grapheme_case a) \<and>
           init_heteronyms E (arg_grapheme_case a) (arg_heteronyms a) = Inr hs \<and>
           phoneme_dict g =
             fst (normalize_dict E (arg_grapheme_case a) (use_chars g) (arg_grapheme_prefix a)
                    (arg_use_stresses a) obj) \<and>
           symbols g =
             snd (normalize_dict E (arg_grapheme_case a) (use_chars g) (arg_grapheme_prefix a)
                    (arg_use_stresses a) obj) \<and>
           heteronyms g = hs \<and>
           apply_to_oov_word g = arg_apply_to_oov_word a \<and>
           ignore_ambiguous_words g = arg_ignore_ambiguous_words a \<and>
           phoneme_probability g = arg_phoneme_probability a \<and>
           use_stresses g = arg_use_stresses a \<and>
           grapheme_case g = arg_grapheme_case a \<and>
           grapheme_prefix g = arg_grapheme_prefix a \<and>
           g2p_locale g = arg_locale a"
  using assms
  by (auto simp: ipa_init_def Let_def split: if_splits sum.splits prod.splits)

lemma init_heteronyms_list:
  "w \<in> set hl \<Longrightarrow>
   init_heteronyms E gcase (HeteronymsList hl) = Inr (Some ((\<lambda>het. set_grapheme_case E het gcase) ` set hl))"
  by (auto simp: init_heteronyms_def)

section \<open>Dictionary lookup and heteronyms\<close>

text \<open>
  C1, as the code has it.  With \<open>phoneme_probability = None\<close>, for a word that
  matches the character class and is not a heteronym: \<open>EnglishG2p\<close> looks up the word
  itself, \<open>IPAG2P\<close> the word that \<open>set_grapheme_case\<close> returns for it, which is also
  the word it tests and returns.  When that word is a key with exactly one
  pronunciation, \<open>parse_one_word\<close> returns the pronunciation and status \<open>True\<close>; when
  it is a key with more than one, \<open>ignore_ambiguous_words\<close> is set and there is no
  \<open>apply_to_oov_word\<close>, \<open>EnglishG2p\<close> returns the word itself and \<open>IPAG2P\<close> the
  prefixed characters of the case-normalized word, both with status \<open>False\<close>.
\<close>

theorem C1_dictionary_lookup:
  fixes g :: "'a english_g2p_scheme" and ig :: "'b ipa_g2p_scheme"
  shows
  "(phoneme_probability g = None \<and> re_search (english_char E) wa \<and> \<not> is_heteronym g wa \<and>
      phoneme_dict g wa = Some [pa]
      \<longrightarrow> english_parse_one_word E g r wa = (Inr (Lst pa, True), r)) \<and>
   (phoneme_probability g = None \<and> re_search (english_char E) wb \<and> \<not> is_heteronym g wb \<and>
      phoneme_dict g wb = Some pronsb \<and> length pronsb > 1 \<and>
      ignore_ambiguous_words g \<and> apply_to_oov_word g = None
      \<longrightarrow> english_parse_one_word E g r wb = (Inr (Str wb, False), r)) \<and>
   (phoneme_probability ig = None \<and>
      re_search (CHAR_REGEX E) (set_grapheme_case E wc (grapheme_case ig)) \<and>
      \<not> is_heteronym ig (set_grapheme_case E wc (grapheme_case ig)) \<and>
      phoneme_dict ig (set_grapheme_case E wc (grapheme_case ig)) = Some [pc]
      \<longrightarrow> ipa_parse_one_word E ig r wc = (Inr (Lst pc, True), r)) \<and>
   (phoneme_probability ig = None \<and>
      re_search (CHAR_REGEX E) (set_grapheme_case E wd (grapheme_case ig)) \<and>
      \<not> is_heteronym ig (set_grapheme_case E wd (grapheme_case ig)) \<and>
      phoneme_dict ig (set_grapheme_case E wd (grapheme_case ig)) = Some pronsd \<and>
      length pronsd > 1 \<and> ignore_ambiguous_words ig \<and> apply_to_oov_word ig = None
      \<longrightarrow> ipa_parse_one_word E ig r wd =
            (Inr (Lst (prepend_prefix_for_one_word (grapheme_prefix ig)
                         (set_grapheme_case E wd (grapheme_case ig))), False), r))"
proof (intro conjI impI)
  assume "phoneme_probability g = None \<and> re_search (english_char E) wa \<and> \<not> is_heteronym g wa \<and>
      phoneme_dict g wa = Some [pa]"
  then show "english_parse_one_word E g r wa = (Inr (Lst pa, True), r)"
    by (intro english_dict_unique) (simp_all add: keep_graphemes_None)
next
  assume "phoneme_probability g = None \<and> re_search (english_char E) wb \<and> \<not> is_heteronym g wb \<and>
      phoneme_dict g wb = Some pronsb \<and> length pronsb > 1 \<and>
      ignore_ambiguous_words g \<and> apply_to_oov_word g = None"
  then show "english_parse_one_word E g r wb = (Inr (Str wb, False), r)"
    by (intro english_dict_ambiguous [where prons = pronsb]) (simp_all add: keep_graphemes_None)
next
  assume "phoneme_probability ig = None \<and>
      re_search (CHAR_REGEX E) (set_grapheme_case E wc (grapheme_case ig)) \<and>
      \<not> is_heteronym ig (set_grapheme_case E wc (grapheme_case ig)) \<and>
      phoneme_dict ig (set_grapheme_case E wc (grapheme_case ig)) = Some [pc]"
  then show "ipa_parse_one_word E ig r wc = (Inr (Lst pc, True), r)"
    by (intro ipa_dict_unique [OF refl]) (simp_all add: keep_graphemes_None)
next
  assume "phoneme_probability ig = None \<and>
      re_search (CHAR_REGEX E) (set_grapheme_case E wd (grapheme_case ig)) \<and>
      \<not> is_heteronym ig (set_grapheme_case E wd (grapheme_case ig)) \<and>
      phoneme_dict ig (set_grapheme_case E wd (grapheme_case ig)) = Some pronsd \<and>
      length pronsd > 1 \<and> ignore_ambiguous_words ig \<and> apply_to_oov_word ig = None"
  then show "ipa_parse_one_word E ig r wd =
            (Inr (Lst (prepend_prefix_for_one_word (grapheme_prefix ig)
                         (set_grapheme_case E wd (grapheme_case ig))), False), r)"
    by (intro ipa_dict_ambiguous [OF refl, where prons = pronsd]) (simp_all add: keep_graphemes_None)
qed

theorem C1_dictionary_lookup_witness:
  "english_parse_one_word example_env example_english no_draws (U ''ab'')
     = (Inr (Lst [U ''AE1'', U ''B''], True), no_draws) \<and>
   english_parse_one_word example_env example_english no_draws (U ''live'')
     = (Inr (Str (U ''live''), False), no_draws) \<and>
   ipa_parse_one_word example_env example_ipa no_draws (U ''ab'')
     = (Inr (Lst [U ''a'', U ''b''], True), no_draws) \<and>
   ipa_parse_one_word example_env example_ipa no_draws (U ''live'')
     = (Inr (Lst [U ''#L'', U ''#I'', U ''#V'', U ''#E''], False), no_draws)"
  using C1_dictionary_lookup [where g = example_english and E = example_env and r = no_draws
      and ig = example_ipa and wa = "U ''ab''" and pa = "[U ''AE1'', U ''B'']"
      and wb = "U ''live''"
      and pronsb = "[[U ''L'', U ''IH1'', U ''V''], [U ''L'', U ''AY1'', U ''V'']]"
      and wc = "U ''ab''" and pc = "[U ''a'', U ''b'']"
      and wd = "U ''live''"
      and pronsd = "[[U ''l'', [618], U ''v''], [U ''l'', U ''a'', [618], U ''v'']]"]
  by (simp add: eval_defs ascii_upper_def ascii_lower_def example_env_def example_dict_def
      example_english_def example_ipa_def)

text \<open>
  Where C1 as stated fails for \<open>IPAG2P\<close>: after \<open>replace_dict\<close> the keys are stored as
  given; the word \<open>ab\<close> is then a key with one pronunciation, matches \<open>CHAR_REGEX\<close> and
  is no heteronym, but \<open>parse_one_word\<close> looks up its uppercase form, finds nothing and
  returns the prefixed characters with status \<open>False\<close>.
\<close>

theorem C1_counterexample:
  "replace_dict example_env example_ipa (DictObj example_ipa_dict)
     = Inr (example_ipa\<lparr>phoneme_dict := map_of example_ipa_dict\<rparr>) \<and>
   phoneme_dict (example_ipa\<lparr>phoneme_dict := map_of example_ipa_dict\<rparr>) (U ''ab'')
     = Some [[[712], U ''a'', U ''b'']] \<and>
   re_search (CHAR_REGEX example_env) (U ''ab'') \<and>
   \<not> is_heteronym (example_ipa\<lparr>phoneme_dict := map_of example_ipa_dict\<rparr>) (U ''ab'') \<and>
   phoneme_probability (example_ipa\<lparr>phoneme_dict := map_of example_ipa_dict\<rparr>) = None \<and>
   ipa_parse_one_word example_env (example_ipa\<lparr>phoneme_dict := map_of example_ipa_dict\<rparr>)
       no_draws (U ''ab'')
     = (Inr (Lst [U ''#A'', U ''#B''], False), no_draws)"
  by (simp add: replace_dict_def parse_phoneme_dict_def ipa_parse_one_word_def eval_defs
      ascii_upper_def ascii_lower_def example_env_def example_ipa_def example_ipa_dict_def)

text \<open>
  C5.  With \<open>phoneme_probability = None\<close>, a heteronym that matches the character class
  stays in grapheme form with status \<open>True\<close>, whatever the dictionary holds:
  \<open>EnglishG2p\<close> returns the word itself; \<open>IPAG2P\<close> returns the prefixed characters of
  the case-normalized word, both for a word whose case-normalized form is in the stored
  set and for every word of the list of heteronyms given to \<open>__init__\<close>.
\<close>

theorem C5_heteronyms_stay_graphemes:
  fixes g :: "'a english_g2p_scheme" and ig :: "'b ipa_g2p_scheme"
  shows
  "(phoneme_probability g = None \<and> re_search (english_char E) wa \<and>
      heteronyms g = Some hsa \<and> wa \<in> hsa
      \<longrightarrow> english_parse_one_word E g r wa = (Inr (Str wa, True), r)) \<and>
   (phoneme_probability ig = None \<and>
      re_search (CHAR_REGEX E) (set_grapheme_case E wb (grapheme_case ig)) \<and>
      heteronyms ig = Some hsb \<and> set_grapheme_case E wb (grapheme_case ig) \<in> hsb
      \<longrightarrow> ipa_parse_one_word E ig r wb =
            (Inr (Lst (prepend_prefix_for_one_word (grapheme_prefix ig)
                         (set_grapheme_case E wb (grapheme_case ig))), True), r)) \<and>
   (ipa_init E a = Inr cg \<and> arg_phoneme_probability a = None \<and>
      arg_heteronyms a = HeteronymsList hl \<and> wc \<in> set hl \<and>
      re_search (CHAR_REGEX E) (set_grapheme_case E wc (arg_grapheme_case a))
      \<longrightarrow> ipa_parse_one_word E cg r wc =
            (Inr (Lst (prepend_prefix_for_one_word (arg_grapheme_prefix a)
                         (set_grapheme_case E wc (arg_grapheme_case a))), True), r))"
proof (intro conjI impI)
  assume "phoneme_probability g = None \<and> re_search (english_char E) wa \<and>
      heteronyms g = Some hsa \<and> wa \<in> hsa"
  then show "english_parse_one_word E g r wa = (Inr (Str wa, True), r)"
    by (intro english_heteronym) (simp_all add: keep_graphemes_None is_heteronym_def)
next
  assume "phoneme_probability ig = None \<and>
      re_search (CHAR_REGEX E) (set_grapheme_case E wb (grapheme_case ig)) \<and>
      heteronyms ig = Some hsb \<and> set_grapheme_case E wb (grapheme_case ig) \<in> hsb"
  then show "ipa_parse_one_word E ig r wb =
            (Inr (Lst (prepend_prefix_for_one_word (grapheme_prefix ig)
                         (set_grapheme_case E wb (grapheme_case ig))), True), r)"
    by (intro ipa_heteronym [OF refl]) (simp_all add: keep_graphemes_None is_heteronym_def)
next
  assume h: "ipa_init E a = Inr cg \<and> arg_phoneme_probability a = None \<and>
      arg_heteronyms a = HeteronymsList hl \<and> wc \<in> set hl \<and>
      re_search (CHAR_REGEX E) (set_grapheme_case E wc (arg_grapheme_case a))"
  from h ipa_init_Inr [of E a cg] init_heteronyms_list [of wc hl E "arg_grapheme_case a"]
  have f: "heteronyms cg = Some ((\<lambda>het. set_grapheme_case E het (arg_grapheme_case a)) ` set hl)"
    "phoneme_probability cg = None" "grapheme_case cg = arg_grapheme_case a"
    "grapheme_prefix cg = arg_grapheme_prefix a"
    by auto
  from h have "is_heteronym cg (set_grapheme_case E wc (arg_grapheme_case a))"
    by (simp add: is_heteronym_def f)
  with h f ipa_heteronym [OF refl, of cg r r E wc]
  show "ipa_parse_one_word E cg r wc =
            (Inr (Lst (prepend_prefix_for_one_word (arg_grapheme_prefix a)
                         (set_grapheme_case E wc (arg_grapheme_case a))), True), r)"
    by (simp add: keep_graphemes_None)
qed

theorem C5_heteronyms_stay_graphemes_witness:
  "english_parse_one_word example_env example_english no_draws (U ''lead'')
     = (Inr (Str (U ''lead''), True), no_draws) \<and>
   ipa_parse_one_word example_env example_ipa no_draws (U ''lead'')
     = (Inr (Lst [U ''#L'', U ''#E'', U ''#A'', U ''#D''], True), no_draws) \<and>
   (\<exists>cg. ipa_init example_env example_ipa_args = Inr cg \<and>
      ipa_parse_one_word example_env cg no_draws (U ''lead'')
        = (Inr (Lst [U ''#L'', U ''#E'', U ''#A'', U ''#D''], True), no_draws))"
proof -
  obtain cg :: ipa_g2p where cg: "ipa_init example_env example_ipa_args = Inr cg"
    by (simp add: ipa_init_def parse_phoneme_dict_def normalize_dict_def normalize_entry_def
        init_heteronyms_def eval_defs example_defs)
  have "english_parse_one_word example_env example_english no_draws (U ''lead'')
          = (Inr (Str (U ''lead''), True), no_draws) \<and>
        ipa_parse_one_word example_env example_ipa no_draws (U ''lead'')
          = (Inr (Lst [U ''#L'', U ''#E'', U ''#A'', U ''#D''], True), no_draws) \<and>
        ipa_parse_one_word example_env cg no_draws (U ''lead'')
          = (Inr (Lst [U ''#L'', U ''#E'', U ''#A'', U ''#D''], True), no_draws)"
    using cg C5_heteronyms_stay_graphemes [where g = example_english and E = example_env
        and r = no_draws and ig = example_ipa and wa = "U ''lead''"
        and hsa = "set [U ''lead'', U ''reads'']" and wb = "U ''lead''"
        and hsb = "set [U ''LEAD'', U ''READS'']" and a = example_ipa_args and cg = cg
        and hl = "[U ''lead'', U ''reads'']" and wc = "U ''lead''"]
    by (simp add: eval_defs ascii_upper_def ascii_lower_def example_env_def example_dict_def
        example_english_def example_ipa_def example_ipa_args_def)
  with cg show ?thesis by blast
qed

section \<open>The suffix rules of EnglishG2p\<close>

lemma endswith_last:
  assumes "endswith word (s @ [c])"
  shows "c \<in> set word"
proof -
  from assms have "drop (length word - length (s @ [c])) word = s @ [c]"
    by (simp add: endswith_def)
  then have "set (s @ [c]) \<subseteq> set word"
    by (metis set_drop_subset)
  then show ?thesis by simp
qed

lemma endswith_s_english_char:
  assumes "endswith word (s @ U ''s'')"
  shows "re_search (english_char E) word"
proof -
  from assms have "115 \<in> set word"
    using endswith_last [of word s 115] by (simp add: U_def)
  moreover have "english_char E 115" by (simp add: english_char_def)
  ultimately show ?thesis unfolding re_search_def list_ex_iff by blast
qed

lemma usable_entry_Some:
  "phoneme_dict g x = Some (p # ps) \<Longrightarrow> (ignore_ambiguous_words g \<longrightarrow> ps = []) \<Longrightarrow> usable_entry g x"
  by (auto simp: usable_entry_def is_unique_def)

lemma first_pron_plus_Some:
  "phoneme_dict g x = Some (p # ps) \<Longrightarrow> first_pron_plus g x suffix = Inr (Lst (p @ suffix), True)"
  by (simp add: first_pron_plus_def first_item_def)

lemma english_apostrophe_s:
  assumes "keep_graphemes (phoneme_probability g) r = (False, r')"
    and "\<not> is_heteronym g word"
    and "length word > 2" "endswith word (apostrophe # U ''s'')"
    and "phoneme_dict g word = None"
    and "phoneme_dict g (drop_last 2 word) = Some (p # ps)"
    and "ignore_ambiguous_words g \<longrightarrow> ps = []"
  shows "english_parse_one_word E g r word = (Inr (Lst (p @ [U ''Z'']), True), r')"
proof -
  have "re_search (english_char E) word"
    using endswith_s_english_char [of word "[apostrophe]" E] assms(4) by simp
  moreover have "usable_entry g (drop_last 2 word)"
    using assms(6,7) by (rule usable_entry_Some)
  ultimately show ?thesis
    using assms by (simp add: english_parse_one_word_def first_pron_plus_Some)
qed

lemma english_s:
  assumes "keep_graphemes (phoneme_probability g) r = (False, r')"
    and "\<not> is_heteronym g word"
    and "length word > 1" "endswith word (U ''s'')"
    and "phoneme_dict g word = None"
    and "phoneme_dict g (drop_last 1 word) = Some (p # ps)"
    and "ignore_ambiguous_words g \<longrightarrow> ps = []"
    and "\<not> (length word > 2 \<and> endswith word (apostrophe # U ''s'') \<and> usable_entry g (drop_last 2 word))"
  shows "english_parse_one_word E g r word = (Inr (Lst (p @ [U ''Z'']), True), r')"
proof -
  have "re_search (english_char E) word"
    using endswith_s_english_char [of word "[]" E] assms(4) by simp
  moreover have "usable_entry g (drop_last 1 word)"
    using assms(6,7) by (rule usable_entry_Some)
  ultimately show ?thesis
    using assms by (auto simp: english_parse_one_word_def first_pron_plus_Some)
qed

text \<open>
  C3, as the code has it.  When the draw of \<open>phoneme_probability\<close> does not keep the
  word and the word is not a heteronym: a word longer than two characters that ends in
  apostrophe-s, is not a key while its stem is, the stem having a first pronunciation
  and, under \<open>ignore_ambiguous_words\<close>, no other, gets that pronunciation followed by
  \<open>Z\<close> and status \<open>True\<close>; so does a word longer than one character that ends in \<open>s\<close>,
  unless the apostrophe-s rule applies to it.
\<close>

theorem C3_english_suffix_rules:
  fixes g :: "'a english_g2p_scheme"
  shows
  "(keep_graphemes (phoneme_probability g) r = (False, r') \<and> \<not> is_heteronym g wa \<and>
      length wa > 2 \<and> endswith wa (apostrophe # U ''s'') \<and> phoneme_dict g wa = None \<and>
      phoneme_dict g (drop_last 2 wa) = Some (pa # psa) \<and> (ignore_ambiguous_words g \<longrightarrow> psa = [])
      \<longrightarrow> english_parse_one_word E g r wa = (Inr (Lst (pa @ [U ''Z'']), True), r')) \<and>
   (keep_graphemes (phoneme_probability g) r = (False, r') \<and> \<not> is_heteronym g wb \<and>
      length wb > 1 \<and> endswith wb (U ''s'') \<and> phoneme_dict g wb = None \<and>
      phoneme_dict g (drop_last 1 wb) = Some (pb # psb) \<and> (ignore_ambiguous_words g \<longrightarrow> psb = []) \<and>
      \<not> (length wb > 2 \<and> endswith wb (apostrophe # U ''s'') \<and> usable_entry g (drop_last 2 wb))
      \<longrightarrow> english_parse_one_word E g r wb = (Inr (Lst (pb @ [U ''Z'']), True), r'))"
proof (intro conjI impI)
  assume "keep_graphemes (phoneme_probability g) r = (False, r') \<and> \<not> is_heteronym g wa \<and>
      length wa > 2 \<and> endswith wa (apostrophe # U ''s'') \<and> phoneme_dict g wa = None \<and>
      phoneme_dict g (drop_last 2 wa) = Some (pa # psa) \<and> (ignore_ambiguous_words g \<longrightarrow> psa = [])"
  then show "english_parse_one_word E g r wa = (Inr (Lst (pa @ [U ''Z'']), True), r')"
    using english_apostrophe_s [of g r r' wa pa psa E] by blast
next
  assume "keep_graphemes (phoneme_probability g) r = (False, r') \<and> \<not> is_heteronym g wb \<and>
      length wb > 1 \<and> endswith wb (U ''s'') \<and> phoneme_dict g wb = None \<and>
      phoneme_dict g (drop_last 1 wb) = Some (pb # psb) \<and> (ignore_ambiguous_words g \<longrightarrow> psb = []) \<and>
      \<not> (length wb > 2 \<and> endswith wb (apostrophe # U ''s'') \<and> usable_entry g (drop_last 2 wb))"
  then show "english_parse_one_word E g r wb = (Inr (Lst (pb @ [U ''Z'']), True), r')"
    using english_s [of g r r' wb pb psb E] by blast
qed

theorem C3_english_suffix_rules_witness:
  "english_parse_one_word example_env example_english no_draws (U ''ab'' @ apostrophe # U ''s'')
     = (Inr (Lst [U ''AE1'', U ''B'', U ''Z''], True), no_draws) \<and>
   english_parse_one_word example_env example_english no_draws (U ''abs'')
     = (Inr (Lst [U ''AE1'', U ''B'', U ''Z''], True), no_draws)"
  using C3_english_suffix_rules [where g = example_english and E = example_env and r = no_draws
      and r' = no_draws and wa = "U ''ab'' @ apostrophe # U ''s''" and pa = "[U ''AE1'', U ''B'']"
      and psa = "[]" and wb = "U ''abs''" and pb = "[U ''AE1'', U ''B'']" and psb = "[]"]
  by (simp add: eval_defs example_env_def example_dict_def example_english_def)

text \<open>
  Where C3 as stated fails: a word that ends in apostrophe-s and whose two stems are
  both keys gets the pronunciation of the shorter stem, not that of the word without
  its last character; a heteronym stays a string; a draw above \<open>phoneme_probability\<close>
  keeps the word; a stem with an empty list of pronunciations raises \<open>IndexError\<close>
  when ambiguous words are not ignored.
\<close>

theorem C3_counterexample:
  "length (U ''ab'' @ apostrophe # U ''s'') > 1 \<and>
   endswith (U ''ab'' @ apostrophe # U ''s'') (U ''s'') \<and>
   phoneme_dict example_english (U ''ab'' @ apostrophe # U ''s'') = None \<and>
   phoneme_dict example_english (drop_last 1 (U ''ab'' @ apostrophe # U ''s''))
     = Some [[U ''AH0'', U ''B'']] \<and>
   english_parse_one_word example_env example_english no_draws (U ''ab'' @ apostrophe # U ''s'')
     = (Inr (Lst [U ''AE1'', U ''B'', U ''Z''], True), no_draws) \<and>
   english_parse_one_word example_env example_english no_draws (U ''ab'' @ apostrophe # U ''s'')
     \<noteq> (Inr (Lst [U ''AH0'', U ''B'', U ''Z''], True), no_draws) \<and>
   phoneme_dict example_english (U ''reads'') = None \<and>
   phoneme_dict example_english (drop_last 1 (U ''reads'')) = Some [[U ''R'', U ''IY1'', U ''D'']] \<and>
   english_parse_one_word example_env example_english no_draws (U ''reads'')
     = (Inr (Str (U ''reads''), True), no_draws) \<and>
   fst (english_parse_one_word example_env (example_english\<lparr>phoneme_probability := Some (1 / 2)\<rparr>)
          two_draws (U ''abs''))
     = Inr (Str (U ''abs''), True) \<and>
   phoneme_dict example_english (drop_last 1 (U ''nones'')) = Some [] \<and>
   english_parse_one_word example_env (example_english\<lparr>ignore_ambiguous_words := False\<rparr>)
       no_draws (U ''nones'')
     = (Inl IndexError, no_draws)"
  by (simp add: english_parse_one_word_def eval_defs example_env_def example_dict_def
      example_english_def two_draws_def)

section \<open>The en-US suffix rules of IPAG2P\<close>

lemma word_found_Some:
  assumes "phoneme_dict g word = None" "phoneme_dict g (str_upper E word) = None"
    and "found = (if phoneme_dict g stem \<noteq> None then stem else str_upper E stem)"
    and "phoneme_dict g found = Some prons"
  shows "word_found E g word stem = Some found"
  using assms by (auto simp: word_found_def split: if_splits)

lemma apostrophe_s_rule_Some:
  assumes "length word > 2"
    and "endswith word (apostrophe # U ''s'') \<or> endswith word (apostrophe # U ''S'')"
    and "word_found E g word (drop_last 2 word) = Some found"
    and "phoneme_dict g found = Some (p # ps)" "ignore_ambiguous_words g \<longrightarrow> ps = []"
    and "found \<noteq> []"
  shows "apostrophe_s_rule E g word =
           Some (Inr (Lst (p @ (if last found \<in> set (U ''Tt'') then [U ''s'']
                                else if last found \<in> set (U ''Ss'') then [[618], U ''z'']
                                else [U ''z''])), True))"
proof -
  have "usable_entry g found"
    using assms(4,5) by (rule usable_entry_Some)
  then show ?thesis
    using assms
    by (simp add: apostrophe_s_rule_def last_item_def first_pron_plus_Some U_def)
qed

lemma apostrophe_s_rule_bare:
  assumes "\<not> endswith word (apostrophe # U ''s'')" "\<not> endswith word (apostrophe # U ''S'')"
  shows "apostrophe_s_rule E g word = None"
  using assms by (simp add: apostrophe_s_rule_def)

lemma s_rule_Some:
  assumes "length word > 1"
    and "endswith word (U ''s'') \<or> endswith word (U ''S'')"
    and "word_found E g word (drop_last 1 word) = Some found"
    and "phoneme_dict g found = Some (p # ps)" "ignore_ambiguous_words g \<longrightarrow> ps = []"
    and "found \<noteq> []"
  shows "s_rule E g word =
           Some (Inr (Lst (p @ (if last found \<in> set (U ''Tt'') then [U ''s''] else [U ''z''])), True))"
proof -
  have "usable_entry g found"
    using assms(4,5) by (rule usable_entry_Some)
  then show ?thesis
    using assms
    by (simp add: s_rule_def last_item_def first_pron_plus_Some U_def)
qed

lemma ipa_en_us_rule:
  assumes "word = set_grapheme_case E word0 (grapheme_case g)"
    and "keep_graphemes (phoneme_probability g) r = (False, r')"
    and "re_search (CHAR_REGEX E) word"
    and "\<not> is_heteronym g word"
    and "en_us_rules E g word = Some res"
  shows "ipa_parse_one_word E g r word0 = (res, r')"
  using assms by (simp add: ipa_parse_one_word_def Let_def)

lemma ipa_apostrophe_s:
  assumes "g2p_locale g = Some (U ''en-US'')"
    and "wa = set_grapheme_case E wa0 (grapheme_case g)"
    and "re_search (CHAR_REGEX E) wa"
    and "keep_graphemes (phoneme_probability g) r = (False, r')"
    and "\<not> is_heteronym g wa"
    and "length wa > 2"
    and "endswith wa (apostrophe # U ''s'') \<or> endswith wa (apostrophe # U ''S'')"
    and "phoneme_dict g wa = None" "phoneme_dict g (str_upper E wa) = None"
    and "fa = (if phoneme_dict g (drop_last 2 wa) \<noteq> None then drop_last 2 wa
               else str_upper E (drop_last 2 wa))"
    and "fa \<noteq> []"
    and "phoneme_dict g fa = Some (pa # psa)"
    and "ignore_ambiguous_words g \<longrightarrow> psa = []"
  shows "ipa_parse_one_word E g r wa0 =
            (Inr (Lst (pa @ (if last fa \<in> set (U ''Tt'') then [U ''s'']
                             else if last fa \<in> set (U ''Ss'') then [[618], U ''z'']
                             else [U ''z''])), True), r')"
proof -
  have "word_found E g wa (drop_last 2 wa) = Some fa"
    using assms(8,9,10,12) by (rule word_found_Some)
  then have "apostrophe_s_rule E g wa =
      Some (Inr (Lst (pa @ (if last fa \<in> set (U ''Tt'') then [U ''s'']
                            else if last fa \<in> set (U ''Ss'') then [[618], U ''z'']
                            else [U ''z''])), True))"
    using assms(6,7,11,12,13) apostrophe_s_rule_Some [of wa E g fa pa psa] by blast
  then have "en_us_rules E g wa =
      Some (Inr (Lst (pa @ (if last fa \<in> set (U ''Tt'') then [U ''s'']
                            else if last fa \<in> set (U ''Ss'') then [[618], U ''z'']
                            else [U ''z''])), True))"
    using assms(1) by (simp add: en_us_rules_def)
  then show ?thesis
    by (rule ipa_en_us_rule [OF assms(2) assms(4) assms(3) assms(5)])
qed

lemma ipa_bare_s:
  assumes "g2p_locale g = Some (U ''en-US'')"
    and "wb = set_grapheme_case E wb0 (grapheme_case g)"
    and "re_search (CHAR_REGEX E) wb"
    and "keep_graphemes (phoneme_probability g) r = (False, r')"
    and "\<not> is_heteronym g wb"
    and "length wb > 1"
    and "endswith wb (U ''s'') \<or> endswith wb (U ''S'')"
    and "\<not> endswith wb (apostrophe # U ''s'')" "\<not> endswith wb (apostrophe # U ''S'')"
    and "phoneme_dict g wb = None" "phoneme_dict g (str_upper E wb) = None"
    and "fb = (if phoneme_dict g (drop_last 1 wb) \<noteq> None then drop_last 1 wb
               else str_upper E (drop_last 1 wb))"
    and "fb \<noteq> []"
    and "phoneme_dict g fb = Some (pb # psb)"
    and "ignore_ambiguous_words g \<longrightarrow> psb = []"
  shows "ipa_parse_one_word E g r wb0 =
            (Inr (Lst (pb @ (if last fb \<in> set (U ''Tt'') then [U ''s''] else [U ''z''])), True), r')"
proof -
  have "word_found E g wb (drop_last 1 wb) = Some fb"
    using assms(10,11,12,14) by (rule word_found_Some)
  then have "s_rule E g wb =
      Some (Inr (Lst (pb @ (if last fb \<in> set (U ''Tt'') then [U ''s''] else [U ''z''])), True))"
    using assms(6,7,13,14,15) s_rule_Some [of wb E g fb pb psb] by blast
  moreover have "apostrophe_s_rule E g wb = None"
    using assms(8,9) by (rule apostrophe_s_rule_bare)
  ultimately have "en_us_rules E g wb =
      Some (Inr (Lst (pb @ (if last fb \<in> set (U ''Tt'') then [U ''s''] else [U ''z''])), True))"
    using assms(1) by (simp add: en_us_rules_def)
  then show ?thesis
    by (rule ipa_en_us_rule [OF assms(2) assms(4) assms(3) assms(5)])
qed

text \<open>
  C4, as the code has it.  With locale en-US, for a case-normalized word that matches
  \<open>CHAR_REGEX\<close>, is not kept by the draw of \<open>phoneme_probability\<close> and is not a
  heteronym, that is no key of the dictionary and neither is its uppercase form: let
  the stem found be the stem if it is a key and its uppercase form otherwise, a key
  with a first pronunciation and, under \<open>ignore_ambiguous_words\<close>, no other.  A word
  longer than two characters that ends in apostrophe-s or apostrophe-S gets that
  pronunciation followed by \<open>s\<close> after a final t or T of the stem found, by the two
  phonemes U+026A and \<open>z\<close> after a final s or S, and by \<open>z\<close> otherwise.  A word longer
  than one character that ends in s or S without the apostrophe gets it followed by
  \<open>s\<close> after a final t or T and by \<open>z\<close> otherwise.  The status is \<open>True\<close>.
\<close>

theorem C4_ipa_suffix_rules:
  fixes g :: "'a ipa_g2p_scheme"
  shows
  "(g2p_locale g = Some (U ''en-US'') \<and> wa = set_grapheme_case E wa0 (grapheme_case g) \<and>
      re_search (CHAR_REGEX E) wa \<and>
      keep_graphemes (phoneme_probability g) r = (False, r') \<and> \<not> is_heteronym g wa \<and>
      length wa > 2 \<and> (endswith wa (apostrophe # U ''s'') \<or> endswith wa (apostrophe # U ''S'')) \<and>
      phoneme_dict g wa = None \<and> phoneme_dict g (str_upper E wa) = None \<and>
      fa = (if phoneme_dict g (drop_last 2 wa) \<noteq> None then drop_last 2 wa
            else str_upper E (drop_last 2 wa)) \<and>
      fa \<noteq> [] \<and> phoneme_dict g fa = Some (pa # psa) \<and> (ignore_ambiguous_words g \<longrightarrow> psa = [])
      \<longrightarrow> ipa_parse_one_word E g r wa0 =
            (Inr (Lst (pa @ (if last fa \<in> set (U ''Tt'') then [U ''s'']
                             else if last fa \<in> set (U ''Ss'') then [[618], U ''z'']
                             else [U ''z''])), True), r')) \<and>
   (g2p_locale g = Some (U ''en-US'') \<and> wb = set_grapheme_case E wb0 (grapheme_case g) \<and>
      re_search (CHAR_REGEX E) wb \<and>
      keep_graphemes (phoneme_probability g) r = (False, r') \<and> \<not> is_heteronym g wb \<and>
      length wb > 1 \<and> (endswith wb (U ''s'') \<or> endswith wb (U ''S'')) \<and>
      \<not> endswith wb (apostrophe # U ''s'') \<and> \<not> endswith wb (apostrophe # U ''S'') \<and>
      phoneme_dict g wb = None \<and> phoneme_dict g (str_upper E wb) = None \<and>
      fb = (if phoneme_dict g (drop_last 1 wb) \<noteq> None then drop_last 1 wb
            else str_upper E (drop_last 1 wb)) \<and>
      fb \<noteq> [] \<and> phoneme_dict g fb = Some (pb # psb) \<and> (ignore_ambiguous_words g \<longrightarrow> psb = [])
      \<longrightarrow> ipa_parse_one_word E g r wb0 =
            (Inr (Lst (pb @ (if last fb \<in> set (U ''Tt'') then [U ''s''] else [U ''z''])), True), r'))"
  by (intro conjI impI; elim conjE; (rule ipa_apostrophe_s ipa_bare_s; assumption))

theorem C4_ipa_suffix_rules_witness:
  "ipa_parse_one_word example_env example_ipa no_draws (U ''jones'' @ apostrophe # U ''s'')
     = (Inr (Lst [U ''d'', U ''j'', U ''o'', U ''n'', U ''z'', [618], U ''z''], True), no_draws) \<and>
   ipa_parse_one_word example_env example_ipa no_draws (U ''airports'')
     = (Inr (Lst [U ''e'', U ''r'', U ''p'', U ''o'', U ''r'', U ''t'', U ''s''], True), no_draws)"
  using C4_ipa_suffix_rules [where g = example_ipa and E = example_env and r = no_draws
      and r' = no_draws and ?wa0.0 = "U ''jones'' @ apostrophe # U ''s''"
      and wa = "U ''JONES'' @ apostrophe # U ''S''" and fa = "U ''JONES''"
      and pa = "[U ''d'', U ''j'', U ''o'', U ''n'', U ''z'']" and psa = "[]"
      and ?wb0.0 = "U ''airports''" and wb = "U ''AIRPORTS''" and fb = "U ''AIRPORT''"
      and pb = "[U ''e'', U ''r'', U ''p'', U ''o'', U ''r'', U ''t'']" and psb = "[]"]
  by (simp add: eval_defs ascii_upper_def ascii_lower_def example_env_def example_ipa_def)

text \<open>
  Where C4 as stated fails: a heteronym stays in grapheme form; a draw above
  \<open>phoneme_probability\<close> keeps the graphemes; a stem with an empty list of
  pronunciations raises \<open>IndexError\<close> when ambiguous words are not ignored; and the
  word that is only the suffix is not handled, although its empty stem is a key.
\<close>

theorem C4_counterexample:
  "phoneme_dict example_ipa (U ''READS'') = None \<and>
   phoneme_dict example_ipa (U ''READ'') = Some [[U ''r'', U ''i'', U ''d'']] \<and>
   ipa_parse_one_word example_env example_ipa no_draws (U ''reads'')
     = (Inr (Lst [U ''#R'', U ''#E'', U ''#A'', U ''#D'', U ''#S''], True), no_draws) \<and>
   fst (ipa_parse_one_word example_env (example_ipa\<lparr>phoneme_probability := Some (1 / 2)\<rparr>)
          two_draws (U ''airports''))
     = Inr (Lst [U ''#A'', U ''#I'', U ''#R'', U ''#P'', U ''#O'', U ''#R'', U ''#T'', U ''#S''], True) \<and>
   phoneme_dict example_ipa (U ''NONE'') = Some [] \<and>
   ipa_parse_one_word example_env (example_ipa\<lparr>ignore_ambiguous_words := False\<rparr>)
       no_draws (U ''nones'')
     = (Inl IndexError, no_draws) \<and>
   ipa_parse_one_word example_env (example_ipa\<lparr>phoneme_dict := map_of [([], [[U ''x'']])]\<rparr>)
       no_draws (apostrophe # U ''s'')
     = (Inr (Lst [[35, 39], U ''#S''], False), no_draws)"
  by (simp add: ipa_parse_one_word_def eval_defs ascii_upper_def ascii_lower_def example_env_def
      example_ipa_def two_draws_def)

section \<open>Determinism and the random number generator\<close>

text \<open>Without a probability no number is drawn, and the result does not depend on the generator.\<close>

lemma english_parse_no_probability:
  assumes "phoneme_probability g = None"
  shows "english_parse_one_word E g r word = (fst (english_parse_one_word E g r0 word), r)"
  using assms
  by (simp add: english_parse_one_word_def keep_graphemes_None split: option.splits)

lemma ipa_parse_no_probability:
  assumes "phoneme_probability g = None"
  shows "ipa_parse_one_word E g r word = (fst (ipa_parse_one_word E g r0 word), r)"
  using assms
  by (auto simp: ipa_parse_one_word_def keep_graphemes_None Let_def split: option.splits)

lemma sub_words_loop_pure:
  assumes "\<And>r w. parse r w = (f w, r)"
  shows "sub_words_loop parse r subs pron = (fst (sub_words_loop parse r0 subs pron), r)"
proof (induction subs arbitrary: pron)
  case Nil
  show ?case by simp
next
  case (Cons sub_word rest)
  show ?case
  proof (cases "f sub_word")
    case (Inl e)
    then show ?thesis by (simp add: assms)
  next
    case (Inr res)
    then show ?thesis
      using Cons.IH by (cases res) (simp add: assms)
  qed
qed

lemma parse_by_hyphen_pure:
  assumes "\<And>r w. parse r w = (f w, r)"
  shows "parse_by_hyphen parse r subs = (fst (parse_by_hyphen parse r0 subs), r)"
proof -
  have "sub_words_loop parse r subs [] = (fst (sub_words_loop parse r0 subs []), r)"
    using assms by (rule sub_words_loop_pure)
  moreover have "sub_words_loop parse r0 subs [] = (fst (sub_words_loop parse r0 subs []), r0)"
    using assms by (rule sub_words_loop_pure)
  ultimately show ?thesis
    by (cases "fst (sub_words_loop parse r0 subs [])") (simp_all add: parse_by_hyphen_def)
qed

lemma call_loop_pure:
  assumes "\<And>r w. step r w = (f w, r)"
  shows "call_loop step r ws prons = (fst (call_loop step r0 ws prons), r)"
proof (induction ws arbitrary: prons)
  case Nil
  show ?case by simp
next
  case (Cons w ws)
  show ?case
    using Cons.IH by (cases "f w") (simp_all add: assms)
qed

lemma english_call_word_pure:
  assumes "phoneme_probability g = None"
  shows "english_call_word E g r w = (fst (english_call_word E g no_draws w), r)"
proof -
  let ?f = "\<lambda>word. fst (english_parse_one_word E g no_draws word)"
  have p: "\<And>r word. english_parse_one_word E g r word = (?f word, r)"
    using assms by (rule english_parse_no_probability)
  have h: "\<And>r subs. parse_by_hyphen (english_parse_one_word E g) r subs
             = (fst (parse_by_hyphen (english_parse_one_word E g) no_draws subs), r)"
    using p by (rule parse_by_hyphen_pure)
  obtain word without_changes where w: "w = (word, without_changes)" by (cases w)
  show ?thesis
  proof (cases "first_item word")
    case (Inl e)
    then show ?thesis by (simp add: w english_call_word_def)
  next
    case (Inr word_str)
    show ?thesis
    proof (cases "?f word_str")
      case (Inl e)
      then show ?thesis
        using Inr p [of r word_str] p [of no_draws word_str]
        by (simp add: w english_call_word_def Let_def)
    next
      case res: (Inr res)
      obtain pron is_handled where "res = (pron, is_handled)" by (cases res)
      with res show ?thesis
        using Inr p [of r word_str] p [of no_draws word_str]
          h [of r "split hyphen word_str"]
        by (simp add: w english_call_word_def Let_def)
    qed
  qed
qed

lemma ipa_call_word_pure:
  assumes "phoneme_probability g = None"
  shows "ipa_call_word E g r w = (fst (ipa_call_word E g no_draws w), r)"
proof -
  let ?f = "\<lambda>word. fst (ipa_parse_one_word E g no_draws word)"
  have p: "\<And>r word. ipa_parse_one_word E g r word = (?f word, r)"
    using assms by (rule ipa_parse_no_probability)
  have h: "\<And>r subs. parse_by_hyphen (ipa_parse_one_word E g) r subs
             = (fst (parse_by_hyphen (ipa_parse_one_word E g) no_draws subs), r)"
    using p by (rule parse_by_hyphen_pure)
  obtain words without_changes where w: "w = (words, without_changes)" by (cases w)
  show ?thesis
  proof (cases "first_item words")
    case (Inl e)
    then show ?thesis by (simp add: w ipa_call_word_def)
  next
    case (Inr word)
    show ?thesis
    proof (cases "?f word")
      case (Inl e)
      then show ?thesis
        using Inr p [of r word] p [of no_draws word]
        by (simp add: w ipa_call_word_def)
    next
      case res: (Inr res)
      obtain pron is_handled where "res = (pron, is_handled)" by (cases res)
      with res show ?thesis
        using Inr p [of r word] p [of no_draws word] h [of r "split hyphen word"]
        by (simp add: w ipa_call_word_def)
    qed
  qed
qed

lemma english_call_pure:
  assumes "phoneme_probability g = None"
  shows "english_call E g r t = (fst (english_call E g r0 t), r)"
  unfolding english_call_def
  using english_call_word_pure [OF assms] by (rule call_loop_pure)

lemma ipa_call_pure:
  assumes "phoneme_probability g = None"
  shows "ipa_call E g r t = (fst (ipa_call E g r0 t), r)"
  unfolding ipa_call_def Let_def
  using ipa_call_word_pure [OF assms] by (rule call_loop_pure)

text \<open>
  C2, as the code has it.  With \<open>phoneme_probability = None\<close> a call leaves the random
  number generator as it was, a second call on the same text returns what the first
  returned, and the output is the same for every state of the generator.  The
  tokenizer, \<open>apply_to_oov_word\<close> and the heteronym model are functions in this model.
\<close>

theorem C2_deterministic_without_probability:
  fixes g :: "'a english_g2p_scheme" and ig :: "'b ipa_g2p_scheme"
  shows
  "(phoneme_probability g = None
      \<longrightarrow> english_call E g (snd (english_call E g r t)) t = english_call E g r t \<and>
          fst (english_call E g r t) = fst (english_call E g r0 t)) \<and>
   (phoneme_probability ig = None
      \<longrightarrow> ipa_call E ig (snd (ipa_call E ig r t)) t = ipa_call E ig r t \<and>
          fst (ipa_call E ig r t) = fst (ipa_call E ig r0 t))"
proof (intro conjI impI)
  assume n: "phoneme_probability g = None"
  show "fst (english_call E g r t) = fst (english_call E g r0 t)"
    using english_call_pure [OF n, of E r t r0] by simp
  show "english_call E g (snd (english_call E g r t)) t = english_call E g r t"
    using english_call_pure [OF n, of E r t r]
      english_call_pure [OF n, of E "snd (english_call E g r t)" t r] by simp
next
  assume n: "phoneme_probability ig = None"
  show "fst (ipa_call E ig r t) = fst (ipa_call E ig r0 t)"
    using ipa_call_pure [OF n, of E r t r0] by simp
  show "ipa_call E ig (snd (ipa_call E ig r t)) t = ipa_call E ig r t"
    using ipa_call_pure [OF n, of E r t r]
      ipa_call_pure [OF n, of E "snd (ipa_call E ig r t)" t r] by simp
qed

lemmas call_defs =
  english_call_def english_call_word_def english_parse_one_word_def ipa_call_def
  ipa_call_word_def ipa_parse_one_word_def

theorem C2_deterministic_without_probability_witness:
  "english_call example_env example_english
       (snd (english_call example_env example_english two_draws (U ''ab-x''))) (U ''ab-x'')
     = (Inr [U ''AE1'', U ''B'', U ''-'', U ''x''], two_draws) \<and>
   fst (english_call example_env example_english two_draws (U ''ab-x''))
     = fst (english_call example_env example_english no_draws (U ''ab-x'')) \<and>
   ipa_call example_env example_ipa (snd (ipa_call example_env example_ipa two_draws (U ''ab-x'')))
       (U ''ab-x'')
     = (Inr [U ''a'', U ''b'', U ''-'', U ''#X''], two_draws) \<and>
   fst (ipa_call example_env example_ipa two_draws (U ''ab-x''))
     = fst (ipa_call example_env example_ipa no_draws (U ''ab-x''))"
proof -
  have e: "english_call example_env example_english two_draws (U ''ab-x'')
             = (Inr [U ''AE1'', U ''B'', U ''-'', U ''x''], two_draws)"
    by (simp add: call_defs eval_defs example_env_def example_dict_def example_english_def
        one_word_def)
  have i: "ipa_call example_env example_ipa two_draws (U ''ab-x'')
             = (Inr [U ''a'', U ''b'', U ''-'', U ''#X''], two_draws)"
    by (simp add: call_defs eval_defs ascii_upper_def ascii_lower_def example_env_def
        example_ipa_def one_word_def)
  show ?thesis
    using e i C2_deterministic_without_probability [where g = example_english
        and E = example_env and r = two_draws and ?r0.0 = no_draws and t = "U ''ab-x''"
        and ig = example_ipa]
    by (simp add: example_english_def example_ipa_def)
qed

text \<open>
  Where C2 as stated fails: with \<open>phoneme_probability\<close> one half and a generator whose
  first draw is above it and whose second is below, the first call keeps the graphemes
  of the word and the second call on the same text returns its phonemes.
\<close>

theorem C2_counterexample:
  "fst (english_call example_env (example_english\<lparr>phoneme_probability := Some (1 / 2)\<rparr>)
          two_draws (U ''ab''))
     = Inr [U ''a'', U ''b''] \<and>
   fst (english_call example_env (example_english\<lparr>phoneme_probability := Some (1 / 2)\<rparr>)
          (snd (english_call example_env (example_english\<lparr>phoneme_probability := Some (1 / 2)\<rparr>)
                  two_draws (U ''ab'')))
          (U ''ab''))
     = Inr [U ''AE1'', U ''B''] \<and>
   fst (ipa_call example_env (example_ipa\<lparr>phoneme_probability := Some (1 / 2)\<rparr>)
          two_draws (U ''ab''))
     = Inr [U ''#A'', U ''#B''] \<and>
   fst (ipa_call example_env (example_ipa\<lparr>phoneme_probability := Some (1 / 2)\<rparr>)
          (snd (ipa_call example_env (example_ipa\<lparr>phoneme_probability := Some (1 / 2)\<rparr>)
                  two_draws (U ''ab'')))
          (U ''ab''))
     = Inr [U ''a'', U ''b'']"
  by (simp add: call_defs eval_defs ascii_upper_def ascii_lower_def example_env_def
      example_dict_def example_english_def example_ipa_def one_word_def two_draws_def)

section \<open>The hyphen fallback\<close>

lemma split_not_Nil: "split sep word \<noteq> []"
  by (induction word) (auto split: list.splits)

lemma length_split: "length (split sep word) > 1 \<longleftrightarrow> sep \<in> set word"
proof (induction word)
  case Nil
  show ?case by simp
next
  case (Cons c cs)
  show ?case
  proof (cases "split sep cs")
    case Nil
    then show ?thesis using split_not_Nil [of sep cs] by simp
  next
    case (Cons p ps)
    then show ?thesis using Cons.IH by auto
  qed
qed

lemma parse_each_length:
  "parse_each parse r subs = (Inr ps, r') \<Longrightarrow> length ps = length subs"
proof (induction subs arbitrary: r ps)
  case Nil
  then show ?case by simp
next
  case (Cons sub_word rest)
  then show ?case
    by (auto split: prod.splits sum.splits)
qed

text \<open>The loop of the source computes what \<open>parse_each\<close> returns, a hyphen after every result.\<close>

lemma sub_words_loop_parse_each:
  "sub_words_loop parse r subs pron =
     (case parse_each parse r subs of
        (Inl e, r') \<Rightarrow> (Inl e, r')
      | (Inr ps, r') \<Rightarrow> (Inr (pron @ concat (map (\<lambda>p. extend_items p @ [[hyphen]]) ps)), r'))"
proof (induction subs arbitrary: r pron)
  case Nil
  show ?case by simp
next
  case (Cons sub_word rest)
  show ?case
    by (simp add: Cons.IH split: prod.splits sum.splits)
qed

lemma pop_hyphenated:
  "xs \<noteq> [] \<Longrightarrow> pop (concat (map (\<lambda>x. x @ [[hyphen]]) xs)) = Inr (joined_by_hyphen xs)"
proof (induction xs rule: joined_by_hyphen.induct)
  case 1
  then show ?case by simp
next
  case (2 x)
  show ?case by (simp add: pop_def)
next
  case (3 x y zs)
  then have "butlast (concat (map (\<lambda>x. x @ [[hyphen]]) (y # zs))) = joined_by_hyphen (y # zs)"
    by (simp add: pop_def split: if_splits)
  then show ?case
    by (simp add: pop_def butlast_append)
qed

lemma parse_by_hyphen_joined:
  assumes "subs \<noteq> []"
  shows "parse_by_hyphen parse r subs =
     (case parse_each parse r subs of
        (Inl e, r') \<Rightarrow> (Inl e, r')
      | (Inr ps, r') \<Rightarrow> (Inr (joined_by_hyphen (map extend_items ps)), r'))"
proof (cases "parse_each parse r subs")
  case (Pair res r')
  show ?thesis
  proof (cases res)
    case (Inl e)
    with Pair show ?thesis
      by (simp add: parse_by_hyphen_def sub_words_loop_parse_each)
  next
    case (Inr ps)
    with Pair assms have "ps \<noteq> []"
      using parse_each_length [of parse r subs ps r'] by auto
    then have "pop (concat (map (\<lambda>x. x @ [[hyphen]]) (map extend_items ps)))
                 = Inr (joined_by_hyphen (map extend_items ps))"
      by (intro pop_hyphenated) simp
    with Pair Inr show ?thesis
      by (simp add: parse_by_hyphen_def sub_words_loop_parse_each map_concat comp_def)
  qed
qed

text \<open>One iteration of \<open>__call__\<close> for a word that is not handled and holds a hyphen.\<close>

lemma english_hyphen_step:
  assumes "english_parse_one_word E g r w = (Inr (p, False), r1)" "hyphen \<in> set w"
  shows "english_call_word E g r ([w], False) =
           (case parse_each (english_parse_one_word E g) r1 (split hyphen w) of
              (Inl e, r') \<Rightarrow> (Inl e, r')
            | (Inr ps, r') \<Rightarrow> (Inr (joined_by_hyphen (map extend_items ps)), r'))"
proof -
  have "length (split hyphen w) > 1"
    using assms(2) length_split [of hyphen w] by simp
  with assms(1) show ?thesis
    by (simp add: english_call_word_def first_item_def Let_def
        parse_by_hyphen_joined [OF split_not_Nil])
qed

lemma ipa_hyphen_step:
  assumes "ipa_parse_one_word E g r w = (Inr (p, False), r1)" "hyphen \<in> set w"
  shows "ipa_call_word E g r ([w], False) =
           (case parse_each (ipa_parse_one_word E g) r1 (split hyphen w) of
              (Inl e, r') \<Rightarrow> (Inl e, r')
            | (Inr ps, r') \<Rightarrow> (Inr (joined_by_hyphen (map extend_items ps)), r'))"
proof -
  have "length (split hyphen w) > 1"
    using assms(2) length_split [of hyphen w] by simp
  with assms(1) show ?thesis
    by (simp add: ipa_call_word_def first_item_def parse_by_hyphen_joined [OF split_not_Nil])
qed

text \<open>The loop of \<open>__call__\<close> over the tokens before a word, the word, and the tokens after it.\<close>

lemma call_loop_append:
  "call_loop step r (xs @ ys) acc =
     (case call_loop step r xs acc of
        (Inl e, r') \<Rightarrow> (Inl e, r')
      | (Inr prons, r') \<Rightarrow> call_loop step r' ys prons)"
  by (induction xs arbitrary: r acc) (auto split: prod.splits sum.splits)

lemma call_loop_single:
  "call_loop step r [x] [] =
     (case step r x of (Inl e, r') \<Rightarrow> (Inl e, r') | (Inr items, r') \<Rightarrow> (Inr items, r'))"
  by (simp split: prod.splits sum.splits)

lemma call_loop_at:
  assumes "call_loop step r before [] = (Inr prons0, r0)"
    and "step r0 x = (Inr items, r1)"
  shows "call_loop step r (before @ x # after) [] = call_loop step r1 after (prons0 @ items)"
  using assms by (simp add: call_loop_append)

lemma ipa_call_words:
  "ipa_call E g r t = call_loop (ipa_call_word E g) r (ipa_call_words E g t) []"
  by (simp add: ipa_call_def ipa_call_words_def Let_def)

lemma english_call_hyphen_single:
  assumes "word_tokenize_func g t = [([w], False)]"
    and "english_parse_one_word E g r w = (Inr (p, False), r1)" "hyphen \<in> set w"
  shows "english_call E g r t =
           (case parse_each (english_parse_one_word E g) r1 (split hyphen w) of
              (Inl e, r') \<Rightarrow> (Inl e, r')
            | (Inr ps, r') \<Rightarrow> (Inr (joined_by_hyphen (map extend_items ps)), r'))"
  unfolding english_call_def assms(1) call_loop_single english_hyphen_step [OF assms(2,3)]
  by (simp split: prod.splits sum.splits)

lemma english_call_hyphen_at:
  assumes "word_tokenize_func g t = before @ ([w], False) # after"
    and "call_loop (english_call_word E g) r before [] = (Inr prons0, r0)"
    and "english_parse_one_word E g r0 w = (Inr (p, False), r1)" "hyphen \<in> set w"
    and "parse_each (english_parse_one_word E g) r1 (split hyphen w) = (Inr ps, r2)"
  shows "english_call E g r t =
           call_loop (english_call_word E g) r2 after (prons0 @ joined_by_hyphen (map extend_items ps))"
proof -
  have "english_call_word E g r0 ([w], False) = (Inr (joined_by_hyphen (map extend_items ps)), r2)"
    using english_hyphen_step [OF assms(3,4)] assms(5) by simp
  with assms(2) show ?thesis
    unfolding english_call_def assms(1) by (rule call_loop_at)
qed

lemma ipa_call_hyphen_single:
  assumes "ipa_call_words E g t = [([w], False)]"
    and "ipa_parse_one_word E g r w = (Inr (p, False), r1)" "hyphen \<in> set w"
  shows "ipa_call E g r t =
           (case parse_each (ipa_parse_one_word E g) r1 (split hyphen w) of
              (Inl e, r') \<Rightarrow> (Inl e, r')
            | (Inr ps, r') \<Rightarrow> (Inr (joined_by_hyphen (map extend_items ps)), r'))"
  unfolding ipa_call_words assms(1) call_loop_single ipa_hyphen_step [OF assms(2,3)]
  by (simp split: prod.splits sum.splits)

lemma ipa_call_hyphen_at:
  assumes "ipa_call_words E g t = before @ ([w], False) # after"
    and "call_loop (ipa_call_word E g) r before [] = (Inr prons0, r0)"
    and "ipa_parse_one_word E g r0 w = (Inr (p, False), r1)" "hyphen \<in> set w"
    and "parse_each (ipa_parse_one_word E g) r1 (split hyphen w) = (Inr ps, r2)"
  shows "ipa_call E g r t =
           call_loop (ipa_call_word E g) r2 after (prons0 @ joined_by_hyphen (map extend_items ps))"
proof -
  have "ipa_call_word E g r0 ([w], False) = (Inr (joined_by_hyphen (map extend_items ps)), r2)"
    using ipa_hyphen_step [OF assms(3,4)] assms(5) by simp
  with assms(2) show ?thesis
    unfolding ipa_call_words assms(1) by (rule call_loop_at)
qed

text \<open>
  C10.  When \<open>parse_one_word\<close> reports a word as not handled and the word contains a
  hyphen, \<open>__call__\<close> drops the result for the whole word, parses each of the sub-words
  between the hyphens on its own, and emits their results joined by single hyphen
  tokens, with no hyphen at the end.  For a text that is that one word, this is the
  whole output of \<open>__call__\<close>, and an exception raised for a sub-word is the exception
  of the call.  For a word anywhere in the text, the output is what the tokens before
  it gave, then the joined results, and the loop goes on with the tokens after it.  The
  same holds for \<open>EnglishG2p\<close>, on the tokens of \<open>word_tokenize_func\<close>, and for \<open>IPAG2P\<close>,
  on the tokens of the normalized and disambiguated text.
\<close>

theorem C10_hyphen_fallback:
  fixes g :: "'a english_g2p_scheme" and ig :: "'b ipa_g2p_scheme"
  shows
  "(word_tokenize_func g t = [([w], False)] \<and>
      english_parse_one_word E g r w = (Inr (p, False), ra) \<and> hyphen \<in> set w
      \<longrightarrow> english_call E g r t =
            (case parse_each (english_parse_one_word E g) ra (split hyphen w) of
               (Inl e, r') \<Rightarrow> (Inl e, r')
             | (Inr ps, r') \<Rightarrow> (Inr (joined_by_hyphen (map extend_items ps)), r'))) \<and>
   (word_tokenize_func g t = before @ ([w], False) # after \<and>
      call_loop (english_call_word E g) r before [] = (Inr prons0, r0) \<and>
      english_parse_one_word E g r0 w = (Inr (p, False), ra) \<and> hyphen \<in> set w \<and>
      parse_each (english_parse_one_word E g) ra (split hyphen w) = (Inr results, rb)
      \<longrightarrow> english_call E g r t =
            call_loop (english_call_word E g) rb after
              (prons0 @ joined_by_hyphen (map extend_items results))) \<and>
   (ipa_call_words E ig t = [([w], False)] \<and>
      ipa_parse_one_word E ig r w = (Inr (p, False), ra) \<and> hyphen \<in> set w
      \<longrightarrow> ipa_call E ig r t =
            (case parse_each (ipa_parse_one_word E ig) ra (split hyphen w) of
               (Inl e, r') \<Rightarrow> (Inl e, r')
             | (Inr ps, r') \<Rightarrow> (Inr (joined_by_hyphen (map extend_items ps)), r'))) \<and>
   (ipa_call_words E ig t = before @ ([w], False) # after \<and>
      call_loop (ipa_call_word E ig) r before [] = (Inr prons0, r0) \<and>
      ipa_parse_one_word E ig r0 w = (Inr (p, False), ra) \<and> hyphen \<in> set w \<and>
      parse_each (ipa_parse_one_word E ig) ra (split hyphen w) = (Inr results, rb)
      \<longrightarrow> ipa_call E ig r t =
            call_loop (ipa_call_word E ig) rb after
              (prons0 @ joined_by_hyphen (map extend_items results)))"
  by (intro conjI impI; elim conjE;
      (rule english_call_hyphen_single english_call_hyphen_at ipa_call_hyphen_single
            ipa_call_hyphen_at; assumption))

theorem C10_hyphen_fallback_witness:
  "english_call example_env example_english no_draws (U ''ab-x--abs'')
     = (Inr [U ''AE1'', U ''B'', U ''-'', U ''x'', U ''-'', U ''-'', U ''AE1'', U ''B'', U ''Z''], no_draws) \<and>
   english_call example_env (example_english\<lparr>word_tokenize_func := space_words\<rparr>) no_draws
       (U ''ab ab-x live'')
     = (Inr [U ''AE1'', U ''B'', U ''AE1'', U ''B'', U ''-'', U ''x'',
             U ''l'', U ''i'', U ''v'', U ''e''], no_draws) \<and>
   ipa_call example_env example_ipa no_draws (U ''ab-x--airports'')
     = (Inr [U ''a'', U ''b'', U ''-'', U ''#X'', U ''-'', U ''-'',
             U ''e'', U ''r'', U ''p'', U ''o'', U ''r'', U ''t'', U ''s''], no_draws) \<and>
   ipa_call example_env (example_ipa\<lparr>word_tokenize_func := space_words\<rparr>) no_draws
       (U ''ab ab-x live'')
     = (Inr [U ''a'', U ''b'', U ''a'', U ''b'', U ''-'', U ''#X'',
             U ''#L'', U ''#I'', U ''#V'', U ''#E''], no_draws)"
proof -
  have a: "english_call example_env example_english no_draws (U ''ab-x--abs'')
     = (Inr [U ''AE1'', U ''B'', U ''-'', U ''x'', U ''-'', U ''-'', U ''AE1'', U ''B'', U ''Z''], no_draws)"
    using C10_hyphen_fallback [where g = example_english and E = example_env and r = no_draws
        and ra = no_draws and t = "U ''ab-x--abs''" and w = "U ''ab-x--abs''"
        and p = "Str (U ''ab-x--abs'')", THEN conjunct1]
    by (simp add: english_parse_one_word_def eval_defs example_env_def example_dict_def
        example_english_def one_word_def)
  have b: "english_call example_env (example_english\<lparr>word_tokenize_func := space_words\<rparr>) no_draws
       (U ''ab ab-x live'')
     = (Inr [U ''AE1'', U ''B'', U ''AE1'', U ''B'', U ''-'', U ''x'',
             U ''l'', U ''i'', U ''v'', U ''e''], no_draws)"
    using C10_hyphen_fallback [where g = "example_english\<lparr>word_tokenize_func := space_words\<rparr>"
        and E = example_env and r = no_draws and ?r0.0 = no_draws and ra = no_draws
        and rb = no_draws and t = "U ''ab ab-x live''" and w = "U ''ab-x''"
        and p = "Str (U ''ab-x'')" and before = "[([U ''ab''], False)]"
        and after = "[([U ''live''], False)]" and ?prons0.0 = "[U ''AE1'', U ''B'']"
        and results = "[Lst [U ''AE1'', U ''B''], Str (U ''x'')]", THEN conjunct2, THEN conjunct1]
    by (simp add: english_call_word_def english_parse_one_word_def eval_defs example_env_def
        example_dict_def example_english_def space_words_def)
  have c: "ipa_call example_env example_ipa no_draws (U ''ab-x--airports'')
     = (Inr [U ''a'', U ''b'', U ''-'', U ''#X'', U ''-'', U ''-'',
             U ''e'', U ''r'', U ''p'', U ''o'', U ''r'', U ''t'', U ''s''], no_draws)"
    using C10_hyphen_fallback [where ig = example_ipa and E = example_env and r = no_draws
        and ra = no_draws and t = "U ''ab-x--airports''" and w = "U ''ab-x--airports''"
        and p = "Lst (prepend_prefix_for_one_word (U ''#'') (U ''AB-X--AIRPORTS''))", THEN conjunct2, THEN conjunct2, THEN conjunct1]
    by (simp add: ipa_call_words_def ipa_parse_one_word_def eval_defs ascii_upper_def
        ascii_lower_def example_env_def example_ipa_def one_word_def)
  have d: "ipa_call example_env (example_ipa\<lparr>word_tokenize_func := space_words\<rparr>) no_draws
       (U ''ab ab-x live'')
     = (Inr [U ''a'', U ''b'', U ''a'', U ''b'', U ''-'', U ''#X'',
             U ''#L'', U ''#I'', U ''#V'', U ''#E''], no_draws)"
    using C10_hyphen_fallback [where ig = "example_ipa\<lparr>word_tokenize_func := space_words\<rparr>"
        and E = example_env and r = no_draws and ?r0.0 = no_draws and ra = no_draws
        and rb = no_draws and t = "U ''ab ab-x live''" and w = "U ''ab-x''"
        and p = "Lst (prepend_prefix_for_one_word (U ''#'') (U ''AB-X''))"
        and before = "[([U ''ab''], False)]"
        and after = "[([U ''live''], False)]" and ?prons0.0 = "[U ''a'', U ''b'']"
        and results = "[Lst [U ''a'', U ''b''], Lst [U ''#X'']]", THEN conjunct2, THEN conjunct2, THEN conjunct2]
    by (simp add: ipa_call_words_def ipa_call_word_def ipa_parse_one_word_def eval_defs
        ascii_upper_def ascii_lower_def example_env_def example_ipa_def space_words_def)
  from a b c d show ?thesis by blast
qed

section \<open>Normalization of the dictionary by IPAG2P\<close>

















section \<open>Construction and replacement of the dictionary\<close>




lemma dict_store_new:
  "k \<notin> fst ` set d \<Longrightarrow> dict_store d k v = d @ [(k, v)]"
  by (induction d) auto

lemma fold_dict_store_distinct:
  assumes "distinct (map fst (acc @ d))"
    and "\<forall>(w, ps) \<in> set d. f w = w \<and> map (map f) ps = ps"
  shows "fold (\<lambda>(word, prons) obj. dict_store obj (f word) (map (map f) prons)) d acc = acc @ d"
  using assms
proof (induction d arbitrary: acc)
  case Nil
  show ?case by simp
next
  case (Cons e d)
  obtain w ps where e: "e = (w, ps)" by (cases e)
  from Cons.prems e have s: "dict_store acc (f w) (map (map f) ps) = acc @ [(w, ps)]"
    using dict_store_new [of w acc ps] by auto
  from Cons.prems e have "distinct (map fst ((acc @ [(w, ps)]) @ d))" by simp
  moreover from Cons.prems have "\<forall>(w, ps) \<in> set d. f w = w \<and> map (map f) ps = ps" by simp
  ultimately have "fold (\<lambda>(word, prons) obj. dict_store obj (f word) (map (map f) prons)) d
                     (acc @ [(w, ps)]) = (acc @ [(w, ps)]) @ d"
    by (rule Cons.IH)
  with s e show ?case by simp
qed

text \<open>
  C9.  \<open>replace_dict\<close> stores the dictionary as \<open>_parse_phoneme_dict\<close> returns it and
  changes no other attribute, \<open>symbols\<close> included.  For a dictionary object with
  distinct keys on which \<open>normalize_unicode_text\<close> changes nothing, the stored
  dictionary is the given one: the keys keep their case, the pronunciations their
  stress symbols, and no key is added.
\<close>

theorem C9_replace_dict_frame:
  "(replace_dict E g d = Inr g' \<and> parse_phoneme_dict E d = Inr obj
      \<longrightarrow> phoneme_dict g' = map_of obj \<and> symbols g' = symbols g \<and>
          g'\<lparr>phoneme_dict := phoneme_dict g\<rparr> = g) \<and>
   (distinct (map fst dobj) \<and>
      list_all (\<lambda>(w, ps). normalize_unicode_text E w = w \<and>
                           map (map (normalize_unicode_text E)) ps = ps) dobj
      \<longrightarrow> replace_dict E g (DictObj dobj) = Inr (g\<lparr>phoneme_dict := map_of dobj\<rparr>))"
proof (intro conjI impI)
  assume h: "replace_dict E g d = Inr g' \<and> parse_phoneme_dict E d = Inr obj"
  then have g': "g' = g\<lparr>phoneme_dict := map_of obj\<rparr>"
    by (auto simp: replace_dict_def)
  show "phoneme_dict g' = map_of obj" by (simp add: g')
  show "symbols g' = symbols g" by (simp add: g')
  show "g'\<lparr>phoneme_dict := phoneme_dict g\<rparr> = g" by (simp add: g')
next
  assume h: "distinct (map fst dobj) \<and>
      list_all (\<lambda>(w, ps). normalize_unicode_text E w = w \<and>
                           map (map (normalize_unicode_text E)) ps = ps) dobj"
  then have "fold (\<lambda>(word, prons) obj. dict_store obj (normalize_unicode_text E word)
                     (map (map (normalize_unicode_text E)) prons)) dobj [] = [] @ dobj"
    by (intro fold_dict_store_distinct) (auto simp: list_all_iff)
  then show "replace_dict E g (DictObj dobj) = Inr (g\<lparr>phoneme_dict := map_of dobj\<rparr>)"
    by (simp add: replace_dict_def parse_phoneme_dict_def)
qed

theorem C9_replace_dict_frame_witness:
  "replace_dict example_env example_ipa (DictObj example_ipa_dict)
     = Inr (example_ipa\<lparr>phoneme_dict := map_of example_ipa_dict\<rparr>) \<and>
   phoneme_dict (example_ipa\<lparr>phoneme_dict := map_of example_ipa_dict\<rparr>) (U ''ab'')
     = Some [[[712], U ''a'', U ''b'']] \<and>
   phoneme_dict (example_ipa\<lparr>phoneme_dict := map_of example_ipa_dict\<rparr>) (U ''AB'') = None \<and>
   symbols (example_ipa\<lparr>phoneme_dict := map_of example_ipa_dict\<rparr>) = symbols example_ipa \<and>
   (example_ipa\<lparr>phoneme_dict := map_of example_ipa_dict\<rparr>)\<lparr>phoneme_dict := phoneme_dict example_ipa\<rparr>
     = example_ipa"
proof -
  have r: "replace_dict example_env example_ipa (DictObj example_ipa_dict)
     = Inr (example_ipa\<lparr>phoneme_dict := map_of example_ipa_dict\<rparr>)"
    using C9_replace_dict_frame [where E = example_env and g = example_ipa
        and dobj = example_ipa_dict]
    by (simp add: example_ipa_dict_def example_env_def U_def)
  have o: "parse_phoneme_dict example_env (DictObj example_ipa_dict) = Inr example_ipa_dict"
    by (simp add: parse_phoneme_dict_def example_defs U_def)
  show ?thesis
    using r o C9_replace_dict_frame [where E = example_env and g = example_ipa
        and d = "DictObj example_ipa_dict" and obj = example_ipa_dict
        and g' = "example_ipa\<lparr>phoneme_dict := map_of example_ipa_dict\<rparr>"]
    by (simp add: example_ipa_dict_def U_def)
qed

section \<open>ChineseG2p\<close>

lemma TONES_Some:
  "TONES [c] = Some tone \<longleftrightarrow> c \<in> set (U ''12345'') \<and> tone = U ''#'' @ [c]"
  by (auto simp: TONES_def U_def split: if_splits)

lemma TONES_None: "TONES [c] = None \<longleftrightarrow> c \<notin> set (U ''12345'')"
  by (auto simp: TONES_def U_def)

lemma phoneme_loop_step:
  assumes "tones g = TONES" "s \<noteq> []"
  shows "phoneme_loop g (s # rest) acc =
           (if covered g s then phoneme_loop g rest (acc @ emitted g s) else Inl AssertionError)"
proof (cases "last s \<in> set (U ''12345'')")
  case True
  with assms have "tones g [last s] = Some (U ''#'' @ [last s])"
    by (simp add: TONES_Some)
  with assms True show ?thesis
    by (simp add: last_item_def covered_def emitted_def ends_in_tone_digit_def
        split: option.splits)
next
  case False
  with assms have "tones g [last s] = None"
    by (simp add: TONES_None)
  with assms False show ?thesis
    by (simp add: last_item_def covered_def emitted_def ends_in_tone_digit_def)
qed

lemma phoneme_loop_covered:
  assumes "tones g = TONES" "[] \<notin> set seq"
  shows "phoneme_loop g seq acc =
           (if list_all (covered g) seq then Inr (acc @ concat (map (emitted g) seq))
            else Inl AssertionError)"
  using assms(2)
proof (induction seq arbitrary: acc)
  case Nil
  show ?case by simp
next
  case (Cons s rest)
  then have "s \<noteq> []" "[] \<notin> set rest" by auto
  then show ?case
    using Cons.IH [of "acc @ emitted g s"] phoneme_loop_step [OF assms(1), of s rest acc]
    by simp
qed

text \<open>Every phoneme that \<open>_parse_as_pinyin_dict\<close> stores starts with the sharp sign.\<close>

lemma parse_pinyin_lines_sharp:
  assumes "parse_pinyin_lines E ls d0 = Inr d"
    and "\<forall>k ph. d0 k = Some ph \<longrightarrow> (\<forall>x \<in> set ph. take 1 x = U ''#'')"
  shows "\<forall>k ph. d k = Some ph \<longrightarrow> (\<forall>x \<in> set ph. take 1 x = U ''#'')"
  using assms
proof (induction ls arbitrary: d0)
  case Nil
  then show ?case by simp
next
  case (Cons line rest)
  from Cons.prems(1) obtain p0 p1 ps where s: "split 9 line = p0 # p1 # ps"
    by (auto split: list.splits)
  let ?d1 = "d0(str_lower E p0 \<mapsto> map (\<lambda>pron. U ''#'' @ pron) (split_whitespace (str_isspace E) p1 []))"
  from Cons.prems(1) s have "parse_pinyin_lines E rest ?d1 = Inr d" by simp
  moreover from Cons.prems(2)
  have "\<forall>k ph. ?d1 k = Some ph \<longrightarrow> (\<forall>x \<in> set ph. take 1 x = U ''#'')"
    by (auto simp: U_def)
  ultimately show ?case by (rule Cons.IH)
qed

text \<open>
  C8.  For an object whose tones are those that \<open>__init__\<close> sets, and a sequence of
  syllables none of which is empty (\<open>lazy_pinyin\<close> is a parameter of the model): when
  every syllable that ends in a tone digit has its base in the dictionary,
  \<open>__call__\<close> returns, for every syllable in turn, the phonemes of the base followed
  by the tone token, or the syllable itself when it does not end in a tone digit;
  when some base is missing, \<open>__call__\<close> raises \<open>AssertionError\<close>.  The phonemes of a
  dictionary that \<open>_parse_as_pinyin_dict\<close> has read start with the sharp sign.
\<close>

theorem C8_chinese_call:
  "(tones g = TONES \<and> seq = concat (map (lazy_pinyin g) (word_segmenter g t)) \<and>
      [] \<notin> set seq \<and> list_all (covered g) seq
      \<longrightarrow> chinese_call g t = Inr (concat (map (emitted g) seq))) \<and>
   (tones g = TONES \<and> seq = concat (map (lazy_pinyin g) (word_segmenter g t)) \<and>
      [] \<notin> set seq \<and> \<not> list_all (covered g) seq
      \<longrightarrow> chinese_call g t = Inl AssertionError) \<and>
   (parse_as_pinyin_dict E path = Inr d \<and> d k = Some ph \<and> x \<in> set ph
      \<longrightarrow> take 1 x = U ''#'')"
proof (intro conjI impI)
  assume h: "tones g = TONES \<and> seq = concat (map (lazy_pinyin g) (word_segmenter g t)) \<and>
      [] \<notin> set seq \<and> list_all (covered g) seq"
  from h have t: "tones g = TONES" by blast
  from h have e: "[] \<notin> set seq" by blast
  from h have c: "list_all (covered g) seq" by blast
  from h have s: "concat (map (lazy_pinyin g) (word_segmenter g t)) = seq" by blast
  have "phoneme_loop g seq [] = Inr ([] @ concat (map (emitted g) seq))"
    using phoneme_loop_covered [OF t e, of "[]"] c by simp
  then show "chinese_call g t = Inr (concat (map (emitted g) seq))"
    by (simp add: chinese_call_def s)
next
  assume h: "tones g = TONES \<and> seq = concat (map (lazy_pinyin g) (word_segmenter g t)) \<and>
      [] \<notin> set seq \<and> \<not> list_all (covered g) seq"
  from h have t: "tones g = TONES" by blast
  from h have e: "[] \<notin> set seq" by blast
  from h have c: "\<not> list_all (covered g) seq" by blast
  from h have s: "concat (map (lazy_pinyin g) (word_segmenter g t)) = seq" by blast
  have "phoneme_loop g seq [] = Inl AssertionError"
    using phoneme_loop_covered [OF t e, of "[]"] c by simp
  then show "chinese_call g t = Inl AssertionError"
    by (simp add: chinese_call_def s)
next
  assume h: "parse_as_pinyin_dict E path = Inr d \<and> d k = Some ph \<and> x \<in> set ph"
  then obtain ls where "parse_pinyin_lines E ls Map.empty = Inr d"
    by (auto simp: parse_as_pinyin_dict_def split: option.splits)
  then have "\<forall>k ph. d k = Some ph \<longrightarrow> (\<forall>x \<in> set ph. take 1 x = U ''#'')"
    by (rule parse_pinyin_lines_sharp) simp
  with h show "take 1 x = U ''#''" by blast
qed

lemmas chinese_defs =
  chinese_call_def ends_in_tone_digit_def covered_def emitted_def TONES_def example_chinese_def
  example_pinyin_dict_def example_pinyin_env_def parse_as_pinyin_dict_def

theorem C8_chinese_call_witness:
  "chinese_call example_chinese (U ''wo3 le5 A ,'')
     = Inr [U ''#w'', U ''#o'', U ''#3'', U ''#l'', U ''#e'', U ''#5'', U ''A'', U '','']  \<and>
   chinese_call example_chinese (U ''wo3 qu4'') = Inl AssertionError \<and>
   (\<exists>d. parse_as_pinyin_dict example_pinyin_env (U ''pinyin.txt'') = Inr d \<and>
      d (U ''wo'') = Some [U ''#w'', U ''#o''] \<and> take 1 (U ''#w'') = U ''#'')"
proof -
  have a: "chinese_call example_chinese (U ''wo3 le5 A ,'')
     = Inr [U ''#w'', U ''#o'', U ''#3'', U ''#l'', U ''#e'', U ''#5'', U ''A'', U '','']"
    using C8_chinese_call [where g = example_chinese and t = "U ''wo3 le5 A ,''"
        and seq = "[U ''wo3'', U ''le5'', U ''A'', U '','']"]
    by (simp add: chinese_defs eval_defs)
  have b: "chinese_call example_chinese (U ''wo3 qu4'') = Inl AssertionError"
    using C8_chinese_call [where g = example_chinese and t = "U ''wo3 qu4''"
        and seq = "[U ''wo3'', U ''qu4'']"]
    by (simp add: chinese_defs eval_defs)
  have "\<exists>d. parse_as_pinyin_dict example_pinyin_env (U ''pinyin.txt'') = Inr d \<and>
      d (U ''wo'') = Some [U ''#w'', U ''#o'']"
    by (simp add: chinese_defs eval_defs example_env_def ascii_lower_def)
  then obtain d where d: "parse_as_pinyin_dict example_pinyin_env (U ''pinyin.txt'') = Inr d"
    "d (U ''wo'') = Some [U ''#w'', U ''#o'']"
    by blast
  have c: "take 1 (U ''#w'') = U ''#''"
    using d C8_chinese_call [where E = example_pinyin_env and path = "U ''pinyin.txt''"
        and d = d and k = "U ''wo''" and ph = "[U ''#w'', U ''#o'']" and x = "U ''#w''"]
    by simp
  from a b c d show ?thesis by blast
qed

end
